theory Spec2Isabelle
  imports Complex_Main "HOL-Library.Word"
begin

unbundle bit_operations_syntax

section \<open>The MJPEG AVI builder of \<^verbatim>\<open>src/js/mjpegaudio.js\<close>\<close>

text \<open>
  The builder collects JPEG frames (and at most one raw PCM buffer), builds a tree of
  descriptor objects for a RIFF/AVI file and serialises the tree with the reflective writer
  \<^verbatim>\<open>MJPEGBuilder.appendStruct\<close>, which chooses the encoding of a field from the first
  character of the field's name.

  JavaScript numbers are doubles. The numbers of this program are integers (sizes, counts,
  the configured width, height, frame rate, channel count and sample rate, as
  \<^verbatim>\<open>camrecorder.js\<close> passes them) and are modelled as \<open>int\<close>: sums and products of
  integers are exact in a double below \<open>2^53\<close>, the range the embedding is about. The two
  quotients of \<^verbatim>\<open>finish\<close> are the only numbers that need not be integers; they are values of
  \<open>jsnum\<close>, a rational or one of the three non-finite doubles a division by zero yields.
\<close>

subsection \<open>Bytes, numbers, values\<close>

type_synonym byte = "8 word"

text \<open>The sink \<^verbatim>\<open>bb\<close> is an array of parts; \<^verbatim>\<open>new Blob(parts)\<close> concatenates them.\<close>

type_synonym sink = "byte list list"

datatype jsnum = Fin rat | PosInf | NegInf | NaN

text \<open>
  A descriptor is a JavaScript object: its properties in insertion order and its
  \<^verbatim>\<open>_order\<close> property (\<open>None\<close> when the object has none). \<open>Buf\<close> is an
  \<^verbatim>\<open>ArrayBuffer\<close> or a \<^verbatim>\<open>Blob\<close>, \<open>Fn\<close> a handler function, which receives the sink and
  returns it as it has left it, \<open>Null\<close> is \<^verbatim>\<open>null\<close> or \<^verbatim>\<open>undefined\<close>.
\<close>

datatype jsval =
    Num jsnum
  | Str string
  | Buf "byte list"
  | Fn "sink \<Rightarrow> sink"
  | Obj "(string \<times> jsval) list" "string list option"
  | Arr "jsval list"
  | Null

text \<open>
  What a call of the writer can raise: its two \<^verbatim>\<open>throw\<close> statements, and the
  \<^verbatim>\<open>TypeError\<close> of the language when it reads a property of \<^verbatim>\<open>null\<close> or calls a value
  that is no function. Where JavaScript would silently convert a value of another kind (a
  string under a numeric tag, a number pushed into the sink), the embedding stops with
  \<open>Coerced\<close>: those conversions are outside it, and no descriptor of this program has
  such a field.
\<close>

datatype error =
    MissingOrder
  | UnknownType string
  | TypeError
  | Coerced string
  | InvalidCharacterError

text \<open>An integer as a number, and as a value.\<close>

definition jsint :: "int \<Rightarrow> jsnum" where
  "jsint k = Fin (of_int k)"

abbreviation IntV :: "int \<Rightarrow> jsval" where
  "IntV k \<equiv> Num (jsint k)"

text \<open>\<^verbatim>\<open>s[fieldName]\<close>: a missing property reads as \<^verbatim>\<open>undefined\<close>. Only the
  own properties of an object are modelled: a field whose name is a property of
  \<^verbatim>\<open>Object.prototype\<close> (\<^verbatim>\<open>constructor\<close>, \<^verbatim>\<open>toString\<close>, ...) and is not set on the
  object itself reads as \<^verbatim>\<open>undefined\<close> here, and as the inherited function in the
  language. No descriptor of the program has such a field.\<close>

definition getprop :: "(string \<times> jsval) list \<Rightarrow> string \<Rightarrow> jsval" where
  "getprop props fieldName = (case map_of props fieldName of Some v \<Rightarrow> v | None \<Rightarrow> Null)"

text \<open>\<^verbatim>\<open>s.name = v\<close>: an existing property keeps its place, a new one is added last.\<close>

fun assign_prop :: "string \<Rightarrow> jsval \<Rightarrow> (string \<times> jsval) list \<Rightarrow> (string \<times> jsval) list" where
  "assign_prop name v [] = [(name, v)]"
| "assign_prop name v (p # ps) =
     (if fst p = name then (name, v) # ps else p # assign_prop name v ps)"

text \<open>Every assignment of this program is to an object; other values are left as they are.\<close>

fun assign :: "jsval \<Rightarrow> string \<Rightarrow> jsval \<Rightarrow> jsval" where
  "assign (Obj props order) name v = Obj (assign_prop name v props) order"
| "assign s name v = s"

text \<open>\<^verbatim>\<open>s.name\<close>, for an object \<open>s\<close>.\<close>

definition field :: "jsval \<Rightarrow> string \<Rightarrow> jsval" where
  "field s name = (case s of Obj props order \<Rightarrow> getprop props name | _ \<Rightarrow> Null)"

text \<open>
  Reading a numeric property that holds an integer, as every \<^verbatim>\<open>x.dwSize\<close>,
  \<^verbatim>\<open>bi.dwWidth\<close> and \<^verbatim>\<open>bi.dwHeight\<close> read by \<^verbatim>\<open>finish\<close> does (each was set by a factory
  or assigned an integer just before).
\<close>

fun to_int :: "jsnum \<Rightarrow> int" where
  "to_int (Fin q) = \<lfloor>q\<rfloor>"
| "to_int x = 0"

definition getInt :: "jsval \<Rightarrow> string \<Rightarrow> int" where
  "getInt s name = (case field s name of Num n \<Rightarrow> to_int n | _ \<Rightarrow> 0)"

subsection \<open>Number conversions of the language\<close>

definition trunc :: "rat \<Rightarrow> int" where
  "trunc q = (if q < 0 then - \<lfloor>- q\<rfloor> else \<lfloor>q\<rfloor>)"

text \<open>\<^verbatim>\<open>a / b\<close> for integers: the exact quotient, or a non-finite double when \<open>b = 0\<close>.\<close>

definition js_div :: "int \<Rightarrow> int \<Rightarrow> jsnum" where
  "js_div a b =
     (if b \<noteq> 0 then Fin (of_int a / of_int b)
      else if 0 < a then PosInf else if a < 0 then NegInf else NaN)"

fun Math_floor :: "jsnum \<Rightarrow> jsnum" where
  "Math_floor (Fin q) = jsint \<lfloor>q\<rfloor>"
| "Math_floor x = x"

text \<open>
  \<^verbatim>\<open>ToInt32\<close>, applied by \<^verbatim>\<open>&\<close> and \<^verbatim>\<open>>>\<close> to their left operand: truncate, reduce
  modulo \<open>2^32\<close>, read as two's complement; a non-finite number gives 0.
\<close>

fun ToInt32 :: "jsnum \<Rightarrow> int" where
  "ToInt32 (Fin q) =
     (let int32bit = trunc q mod 2 ^ 32
      in if int32bit \<ge> 2 ^ 31 then int32bit - 2 ^ 32 else int32bit)"
| "ToInt32 x = 0"

text \<open>Storing a number into a \<^verbatim>\<open>Uint8Array\<close>: truncate, reduce modulo 256.\<close>

fun ToUint8 :: "jsnum \<Rightarrow> byte" where
  "ToUint8 (Fin q) = word_of_int (trunc q)"
| "ToUint8 x = 0"

text \<open>
  The number a numeric tag reads from a field. \<^verbatim>\<open>undefined\<close> converts to \<open>NaN\<close> and
  \<^verbatim>\<open>null\<close> to 0; \<open>ToInt32\<close> and \<open>ToUint8\<close> send both to 0.
\<close>

fun ToNumeric :: "jsval \<Rightarrow> jsnum option" where
  "ToNumeric (Num n) = Some n"
| "ToNumeric Null = Some NaN"
| "ToNumeric v = None"

text \<open>What the \<^verbatim>\<open>Blob\<close> constructor makes of a part: the bytes of a buffer, the characters of
  a string (a \<open>char\<close> is a byte here, as the four-character codes of this program are).\<close>

fun pushable :: "jsval \<Rightarrow> byte list option" where
  "pushable (Str s) = Some (map of_char s)"
| "pushable (Buf b) = Some b"
| "pushable v = None"

subsection \<open>The field encoders of \<^verbatim>\<open>appendStruct\<close>\<close>

definition BYTE :: "jsnum \<Rightarrow> byte list" where
  "BYTE val = [ToUint8 val]"

definition DWORD :: "jsnum \<Rightarrow> byte list" where
  "DWORD val =
     [word_of_int (ToInt32 val AND 0xff),
      word_of_int (drop_bit 8 (ToInt32 val) AND 0xff),
      word_of_int (drop_bit 16 (ToInt32 val) AND 0xff),
      word_of_int (drop_bit 24 (ToInt32 val) AND 0xff)]"

definition WORD :: "jsnum \<Rightarrow> byte list" where
  "WORD val =
     [word_of_int (ToInt32 val AND 0xff),
      word_of_int (drop_bit 8 (ToInt32 val) AND 0xff)]"

definition WORD_BE :: "jsnum \<Rightarrow> byte list" where
  "WORD_BE val =
     [word_of_int (drop_bit 8 (ToInt32 val) AND 0xff),
      word_of_int (ToInt32 val AND 0xff)]"

subsection \<open>\<^verbatim>\<open>MJPEGBuilder.appendStruct\<close>\<close>

text \<open>
  \<open>appendStruct\<close> is the function of the source, \<open>appendFields\<close> its loop over
  \<^verbatim>\<open>_order\<close> and \<open>appendArray\<close> the inner loop of the case \<^verbatim>\<open>'a'\<close>. A \<^verbatim>\<open>throw\<close>
  ends the call: the result is \<open>Inl\<close> and the sink is lost.
\<close>

function appendStruct :: "sink \<Rightarrow> jsval \<Rightarrow> error + sink"
  and appendFields :: "sink \<Rightarrow> (string \<times> jsval) list \<Rightarrow> string list \<Rightarrow> error + sink"
  and appendArray :: "sink \<Rightarrow> jsval list \<Rightarrow> error + sink"
where
  "appendStruct bb s =
     (case s of
        Null \<Rightarrow> Inl TypeError
      | Obj props order \<Rightarrow>
          (case order of
             None \<Rightarrow> Inl MissingOrder
           | Some od \<Rightarrow> appendFields bb props od)
      | _ \<Rightarrow> Inl MissingOrder)"
| "appendFields bb props [] = Inr bb"
| "appendFields bb props (fieldName # rest) =
     (let val = getprop props fieldName in
      case
        (case fieldName of
           [] \<Rightarrow> Inl (UnknownType fieldName)
         | c # _ \<Rightarrow>
             if c = CHR ''b'' then
               (case ToNumeric val of
                  Some n \<Rightarrow> Inr (bb @ [BYTE n])
                | None \<Rightarrow> Inl (Coerced fieldName))
             else if c = CHR ''c'' then
               (case pushable val of
                  Some p \<Rightarrow> Inr (bb @ [p])
                | None \<Rightarrow> Inl (Coerced fieldName))
             else if c = CHR ''d'' then
               (case ToNumeric val of
                  Some n \<Rightarrow> Inr (bb @ [DWORD n])
                | None \<Rightarrow> Inl (Coerced fieldName))
             else if c = CHR ''w'' then
               (case ToNumeric val of
                  Some n \<Rightarrow> Inr (bb @ [WORD n])
                | None \<Rightarrow> Inl (Coerced fieldName))
             else if c = CHR ''W'' then
               (case ToNumeric val of
                  Some n \<Rightarrow> Inr (bb @ [WORD_BE n])
                | None \<Rightarrow> Inl (Coerced fieldName))
             else if c = CHR ''a'' then
               (case val of
                  Arr xs \<Rightarrow> appendArray bb xs
                | Null \<Rightarrow> Inl TypeError
                | _ \<Rightarrow> Inl (Coerced fieldName))
             else if c = CHR ''r'' then
               (case pushable val of
                  Some p \<Rightarrow> Inr (bb @ [p])
                | None \<Rightarrow> Inl (Coerced fieldName))
             else if c = CHR ''s'' then appendStruct bb val
             else if c = CHR ''h'' then
               (case val of
                  Fn f \<Rightarrow> Inr (f bb)
                | _ \<Rightarrow> Inl TypeError)
             else Inl (UnknownType fieldName))
      of
        Inl e \<Rightarrow> Inl e
      | Inr bb' \<Rightarrow> appendFields bb' props rest)"
| "appendArray bb [] = Inr bb"
| "appendArray bb (x # xs) =
     (case appendStruct bb x of
        Inl e \<Rightarrow> Inl e
      | Inr bb' \<Rightarrow> appendArray bb' xs)"
  by pat_completeness auto

termination
proof (relation "inv_image (less_than <*lex*> less_than)
     (\<lambda>x. case x of
        Inl (bb, s) \<Rightarrow> (size s, 0)
      | Inr (Inl (bb, props, od)) \<Rightarrow>
          (size_list (size_prod (\<lambda>_. 0) size) props, Suc (length od))
      | Inr (Inr (bb, xs)) \<Rightarrow> (size_list size xs, Suc (length xs)))", goal_cases)
  case 1
  show ?case by auto
next
  case (2 bb s props order od)
  then show ?case by simp
next
  case (3 bb props fieldName rest val c cs xs)
  have "size (getprop ps n) \<le> size_list (size_prod (\<lambda>_. 0) size) ps" for ps n
    by (induction ps) (auto simp: getprop_def split: option.splits)
  moreover from 3 have "getprop props fieldName = Arr xs" by simp
  ultimately have "size (Arr xs) \<le> size_list (size_prod (\<lambda>_. 0) size) props" by metis
  then show ?case by simp
next
  case (4 bb props fieldName rest val c cs)
  have "size (getprop ps n) \<le> size_list (size_prod (\<lambda>_. 0) size) ps" for ps n
    by (induction ps) (auto simp: getprop_def split: option.splits)
  from this [of props fieldName] 4 show ?case by auto
next
  case 5
  then show ?case by simp
next
  case 6
  then show ?case by simp
next
  case 7
  then show ?case by simp
qed

subsection \<open>The descriptor factories\<close>

definition AVIF_HASINDEX :: int where
  "AVIF_HASINDEX = 0x00000010"

definition AVIIF_KEYFRAME :: int where
  "AVIIF_KEYFRAME = 0x00000010"

definition RateBase :: int where
  "RateBase = 1000000"

definition createAVIStruct :: jsval where
  "createAVIStruct =
     Obj [(''chRIFF'', Str ''RIFF''),
          (''chFourCC'', Str ''AVI ''),
          (''dwSize'', IntV 0),
          (''aData'', Null)]
         (Some [''chRIFF'', ''dwSize'', ''chFourCC'', ''aData''])"

definition createAVIMainHeader :: jsval where
  "createAVIMainHeader =
     Obj [(''chFourCC'', Str ''avih''),
          (''dwSize'', IntV 56),
          (''dwMicroSecPerFrame'', IntV 66666),
          (''dwMaxBytesPerSec'', IntV 1000),
          (''dwPaddingGranularity'', IntV 0),
          (''dwFlags'', IntV AVIF_HASINDEX),
          (''dwTotalFrames'', IntV 1),
          (''dwInitialFrames'', IntV 0),
          (''dwStreams'', IntV 2),
          (''dwSuggestedBufferSize'', IntV 0),
          (''dwWidth'', IntV 10),
          (''dwHeight'', IntV 20),
          (''dwReserved1'', IntV 0),
          (''dwReserved2'', IntV 0),
          (''dwReserved3'', IntV 0),
          (''dwReserved4'', IntV 0)]
         (Some [''chFourCC'', ''dwSize'',
                ''dwMicroSecPerFrame'', ''dwMaxBytesPerSec'', ''dwPaddingGranularity'',
                ''dwFlags'', ''dwTotalFrames'', ''dwInitialFrames'', ''dwStreams'',
                ''dwSuggestedBufferSize'', ''dwWidth'', ''dwHeight'', ''dwReserved1'',
                ''dwReserved2'', ''dwReserved3'', ''dwReserved4''])"

definition createHeaderLIST :: jsval where
  "createHeaderLIST =
     Obj [(''chLIST'', Str ''LIST''),
          (''dwSize'', IntV 0),
          (''chFourCC'', Str ''hdrl''),
          (''aData'', Null)]
         (Some [''chLIST'', ''dwSize'', ''chFourCC'', ''aData''])"

definition createMoviLIST :: jsval where
  "createMoviLIST =
     Obj [(''chLIST'', Str ''LIST''),
          (''dwSize'', IntV 0),
          (''chFourCC'', Str ''movi''),
          (''aStreams'', Null)]
         (Some [''chLIST'', ''dwSize'', ''chFourCC'', ''aStreams''])"

definition createMoviStream :: jsval where
  "createMoviStream =
     Obj [(''chType'', Str ''00dc''),
          (''dwSize'', IntV 0),
          (''handler'', Null)]
         (Some [''chType'', ''dwSize'', ''handler''])"

definition createStreamHeaderLIST :: jsval where
  "createStreamHeaderLIST =
     Obj [(''chLIST'', Str ''LIST''),
          (''dwSize'', IntV 0),
          (''chFourCC'', Str ''strl''),
          (''aList'', Null)]
         (Some [''chLIST'', ''dwSize'', ''chFourCC'', ''aList''])"

definition createStreamFormat :: jsval where
  "createStreamFormat =
     Obj [(''chFourCC'', Str ''strf''),
          (''dwSize'', IntV 0),
          (''sContent'', Null)]
         (Some [''chFourCC'', ''dwSize'', ''sContent''])"

definition createStreamHeader :: jsval where
  "createStreamHeader =
     Obj [(''chFourCC'', Str ''strh''),
          (''dwSize'', IntV 56),
          (''chTypeFourCC'', Str ''vids''),
          (''chHandlerFourCC'', Str ''mjpg''),
          (''dwFlags'', IntV 0),
          (''wPriority'', IntV 0),
          (''wLanguage'', IntV 0),
          (''dwInitialFrames'', IntV 0),
          (''dwScale'', IntV 66666),
          (''dwRate'', IntV RateBase),
          (''dwStart'', IntV 0),
          (''dwLength'', IntV 0),
          (''dwSuggestedBufferSize'', IntV 0),
          (''dwQuality'', IntV 10000),
          (''dwSampleSize'', IntV 0),
          (''wLeft'', IntV 0),
          (''wTop'', IntV 0),
          (''wRight'', IntV 0),
          (''wBottom'', IntV 0)]
         (Some [''chFourCC'', ''dwSize'', ''chTypeFourCC'', ''chHandlerFourCC'',
                ''dwFlags'', ''wPriority'', ''wLanguage'', ''dwInitialFrames'', ''dwScale'',
                ''dwRate'', ''dwStart'', ''dwLength'', ''dwSuggestedBufferSize'',
                ''dwQuality'', ''dwSampleSize'', ''wLeft'', ''wTop'', ''wRight'', ''wBottom''])"

definition createBitmapHeader :: jsval where
  "createBitmapHeader =
     Obj [(''dwSize'', IntV 40),
          (''dwWidth'', IntV 10),
          (''dwHeight'', IntV 20),
          (''wPlanes'', IntV 1),
          (''wBitcount'', IntV 24),
          (''chCompression'', Str ''MJPG''),
          (''dwSizeImage'', IntV 600),
          (''dwXPelsPerMeter'', IntV 0),
          (''dwYPelsPerMeter'', IntV 0),
          (''dwClrUsed'', IntV 0),
          (''dwClrImportant'', IntV 0)]
         (Some [''dwSize'', ''dwWidth'', ''dwHeight'', ''wPlanes'', ''wBitcount'',
                ''chCompression'', ''dwSizeImage'', ''dwXPelsPerMeter'', ''dwYPelsPerMeter'',
                ''dwClrUsed'', ''dwClrImportant''])"

definition createWavHeader :: jsval where
  "createWavHeader =
     Obj [(''wFormatTag'', IntV 1),
          (''wnChannels'', IntV 0),
          (''dwnSamplesPerSec'', IntV 0),
          (''dwnAvgBytesPerSec'', IntV 0),
          (''wnBlockAlign'', IntV 2),
          (''wBitsPerSample'', IntV 16),
          (''wcbSize'', IntV 0)]
         (Some [''wFormatTag'', ''wnChannels'', ''dwnSamplesPerSec'', ''dwnAvgBytesPerSec'',
                ''wnBlockAlign'', ''wBitsPerSample'', ''wcbSize''])"

subsection \<open>The builder\<close>

record blob =
  blob_bytes :: "byte list"
  blob_type :: string

definition blob_size :: "blob \<Rightarrow> int" where
  "blob_size b = int (length (blob_bytes b))"

record movieDesc =
  w :: int
  h :: int
  fps :: int
  videoStreamSize :: int
  maxJPEGSize :: int

text \<open>
  \<open>audioBlob\<close> is \<open>None\<close> until \<^verbatim>\<open>addAudio\<close> stores a blob (an object, hence truthy in
  \<^verbatim>\<open>if (this.audioBlob)\<close>). \<^verbatim>\<open>audioNumChannels\<close> and \<^verbatim>\<open>audioSampleRate\<close> do not exist
  before that call and are read only behind that test; the fields hold 0 until then.
\<close>

record MJPEGBuilder =
  movieDesc :: movieDesc
  avi :: jsval
  headerLIST :: jsval
  moviLIST :: jsval
  frameList :: "blob list"
  audioBlob :: "blob option"
  audioNumChannels :: int
  audioSampleRate :: int

definition MJPEGBuilder_new :: MJPEGBuilder where
  "MJPEGBuilder_new =
     \<lparr>movieDesc = \<lparr>w = 0, h = 0, fps = 0, videoStreamSize = 0, maxJPEGSize = 0\<rparr>,
      avi = createAVIStruct,
      headerLIST = createHeaderLIST,
      moviLIST = createMoviLIST,
      frameList = [],
      audioBlob = None,
      audioNumChannels = 0,
      audioSampleRate = 0\<rparr>"

definition setup_movie :: "int \<Rightarrow> int \<Rightarrow> int \<Rightarrow> MJPEGBuilder \<Rightarrow> MJPEGBuilder" where
  "setup_movie frameWidth frameHeight rate this =
     this\<lparr>movieDesc := (movieDesc this)\<lparr>w := frameWidth, h := frameHeight, fps := rate\<rparr>\<rparr>"

text \<open>
  \<^verbatim>\<open>addFrame\<close>. \<^verbatim>\<open>atob\<close> is the base64 decoder of the browser, a parameter here: it returns
  the decoded bytes (a binary string), or raises \<^verbatim>\<open>InvalidCharacterError\<close> (\<open>None\<close>).
  \<^verbatim>\<open>frame.charCodeAt(i)\<close> is \<open>NaN\<close> at \<open>i = frame.length\<close>, which the typed array
  stores as 0.
\<close>

definition charCodeAt :: "byte list \<Rightarrow> nat \<Rightarrow> byte" where
  "charCodeAt frame i = (if i < length frame then frame ! i else 0)"

definition addFrame ::
  "(string \<Rightarrow> byte list option) \<Rightarrow> string \<Rightarrow> MJPEGBuilder \<Rightarrow> error + MJPEGBuilder" where
  "addFrame atob u this =
     (case atob (drop 23 u) of
        None \<Rightarrow> Inl InvalidCharacterError
      | Some frame \<Rightarrow>
          (let len = length frame;
               len = (if len mod 2 \<noteq> 0 then len + 1 else len);
               arr = map (charCodeAt frame) [0..<len];
               blob = \<lparr>blob_bytes = arr, blob_type = ''image/jpeg''\<rparr>;
               bsize = blob_size blob;
               md = movieDesc this;
               md = md\<lparr>videoStreamSize := videoStreamSize md + bsize\<rparr>;
               md = (if maxJPEGSize md < bsize then md\<lparr>maxJPEGSize := bsize\<rparr> else md)
           in Inr (this\<lparr>movieDesc := md, frameList := frameList this @ [blob]\<rparr>)))"

definition addAudio :: "blob \<Rightarrow> int \<Rightarrow> int \<Rightarrow> MJPEGBuilder \<Rightarrow> MJPEGBuilder" where
  "addAudio blob numChannels sampleRate this =
     this\<lparr>audioBlob := Some blob,
          audioNumChannels := numChannels,
          audioSampleRate := sampleRate\<rparr>"

text \<open>Both return the list with the new chunk descriptor pushed, and \<^verbatim>\<open>stream.dwSize + 8\<close>.\<close>

definition addVideoStreamData :: "jsval list \<Rightarrow> blob \<Rightarrow> jsval list \<times> int" where
  "addVideoStreamData list blob =
     (let stream = createMoviStream;
          stream = assign stream ''dwSize'' (IntV (blob_size blob));
          stream = assign stream ''handler'' (Fn (\<lambda>bb. bb @ [blob_bytes blob]))
      in (list @ [stream], getInt stream ''dwSize'' + 8))"

definition addAudioStreamData :: "jsval list \<Rightarrow> blob \<Rightarrow> jsval list \<times> int" where
  "addAudioStreamData list blob =
     (let stream = createMoviStream;
          stream = assign stream ''chType'' (Str ''01wb'');
          stream = assign stream ''dwSize'' (IntV (blob_size blob));
          stream = assign stream ''handler'' (Fn (\<lambda>bb. bb @ [blob_bytes blob]))
      in (list @ [stream], getInt stream ''dwSize'' + 8))"

subsection \<open>\<^verbatim>\<open>finish\<close>\<close>

text \<open>
  The body of the \<^verbatim>\<open>for\<close> loop over \<^verbatim>\<open>this.frameList\<close>, with the four variables it
  updates: the array \<^verbatim>\<open>this.moviLIST.aStreams\<close>, \<^verbatim>\<open>frameIndices\<close>, \<^verbatim>\<open>frOffset\<close> and
  \<^verbatim>\<open>streamSize\<close>.
\<close>

fun finish_loop ::
  "string list \<Rightarrow> blob list \<Rightarrow> jsval list \<times> jsval list \<times> int \<times> int
     \<Rightarrow> jsval list \<times> jsval list \<times> int \<times> int" where
  "finish_loop IndexEntryOrder [] acc = acc"
| "finish_loop IndexEntryOrder (frame # frames) (aStreams, frameIndices, frOffset, streamSize) =
     (let (aStreams, frsize) = addVideoStreamData aStreams frame;
          frameIndices = frameIndices @
            [Obj [(''chId'', Str ''00dc''),
                  (''dwFlags'', IntV AVIIF_KEYFRAME),
                  (''dwOffset'', IntV frOffset),
                  (''dwLength'', IntV (frsize - 8))]
                 (Some IndexEntryOrder)];
          frOffset = frOffset + frsize;
          streamSize = streamSize + frsize
      in finish_loop IndexEntryOrder frames (aStreams, frameIndices, frOffset, streamSize))"

text \<open>
  The blocks of \<^verbatim>\<open>finish\<close> that fill one descriptor each, under the comments of the
  source: \<^verbatim>\<open>// stream header (strh)\<close>, \<^verbatim>\<open>// strf\<close>, \<^verbatim>\<open>// strl\<close>, \<^verbatim>\<open>// audio\<close> and
  \<^verbatim>\<open>// AVI header\<close>.
\<close>

definition finish_strh :: "MJPEGBuilder \<Rightarrow> jsnum \<Rightarrow> jsval" where
  "finish_strh this frameDu =
     (let strh = createStreamHeader;
          strh = assign strh ''wRight'' (IntV (w (movieDesc this)));
          strh = assign strh ''wBottom'' (IntV (h (movieDesc this)));
          strh = assign strh ''dwLength'' (IntV (int (length (frameList this))));
          strh = assign strh ''dwScale'' (Num frameDu)
      in strh)"

definition finish_strf :: "MJPEGBuilder \<Rightarrow> jsval" where
  "finish_strf this =
     (let bi = createBitmapHeader;
          bi = assign bi ''dwWidth'' (IntV (w (movieDesc this)));
          bi = assign bi ''dwHeight'' (IntV (h (movieDesc this)));
          bi = assign bi ''dwSizeImage''
                 (IntV (3 * getInt bi ''dwWidth'' * getInt bi ''dwHeight''));
          strf = createStreamFormat;
          strf = assign strf ''dwSize'' (IntV (getInt bi ''dwSize''));
          strf = assign strf ''sContent'' bi
      in strf)"

definition finish_strl :: "jsval \<Rightarrow> jsval \<Rightarrow> jsval" where
  "finish_strl strh strf =
     (let strl = createStreamHeaderLIST;
          strl = assign strl ''dwSize''
                   (IntV (4 + (getInt strh ''dwSize'' + 8) + (getInt strf ''dwSize'' + 8)));
          strl = assign strl ''aList'' (Arr [strh, strf])
      in strl)"

text \<open>The block behind \<^verbatim>\<open>if (this.audioBlob)\<close>; \<open>strh\<close> is the video stream header,
  whose \<^verbatim>\<open>dwSize\<close> the source reads for the size of the audio list.\<close>

definition finish_strl_audio :: "MJPEGBuilder \<Rightarrow> int \<Rightarrow> jsval \<Rightarrow> jsval" where
  "finish_strl_audio this frameCount strh =
     (let strh_audio = createStreamHeader;
          strh_audio = assign strh_audio ''chTypeFourCC'' (Str ''auds'');
          strh_audio = assign strh_audio ''chHandlerFourCC''
                         (Str [CHR 0x00, CHR 0x00, CHR 0x00, CHR 0x00]);
          strh_audio = assign strh_audio ''dwScale'' (IntV 1);
          strh_audio = assign strh_audio ''dwRate''
                         (IntV (audioNumChannels this * audioSampleRate this));
          strh_audio = assign strh_audio ''dwLength''
                         (Num (js_div (audioNumChannels this * audioSampleRate this * frameCount)
                                      (fps (movieDesc this))));
          strh_audio = assign strh_audio ''dwSampleSize'' (IntV 2);
          strh_audio = assign strh_audio ''wRight'' (IntV 0);
          strh_audio = assign strh_audio ''wBottom'' (IntV 0);

          strf_audio = createStreamFormat;
          strf_audio = assign strf_audio ''dwSize'' (IntV 18);
          wh = createWavHeader;
          wh = assign wh ''wnChannels'' (IntV (audioNumChannels this));
          wh = assign wh ''dwnSamplesPerSec'' (IntV (audioSampleRate this));
          wh = assign wh ''dwnAvgBytesPerSec''
                 (IntV (audioSampleRate this * audioNumChannels this));
          strf_audio = assign strf_audio ''sContent'' wh;

          strl_audio = createStreamHeaderLIST;
          strl_audio = assign strl_audio ''dwSize''
                         (IntV (4 + (getInt strh ''dwSize'' + 8)
                                  + (getInt strf_audio ''dwSize'' + 8)));
          strl_audio = assign strl_audio ''aList'' (Arr [strh_audio, strf_audio])
      in strl_audio)"

definition finish_avih :: "MJPEGBuilder \<Rightarrow> jsnum \<Rightarrow> jsval" where
  "finish_avih this frameDu =
     (let avih = createAVIMainHeader;
          avih = assign avih ''dwMicroSecPerFrame'' (Num frameDu);
          avih = assign avih ''dwMaxBytesPerSec''
                   (IntV (maxJPEGSize (movieDesc this) * fps (movieDesc this)));
          avih = assign avih ''dwTotalFrames'' (IntV (int (length (frameList this))));
          avih = assign avih ''dwWidth'' (IntV (w (movieDesc this)));
          avih = assign avih ''dwHeight'' (IntV (h (movieDesc this)));
          avih = assign avih ''dwSuggestedBufferSize'' (IntV 0)
      in avih)"

text \<open>
  \<^verbatim>\<open>finish\<close> returns the builder as it leaves it (its three descriptor objects are
  overwritten) and the blob, or the error \<^verbatim>\<open>appendStruct\<close> raised. The source empties the
  array \<^verbatim>\<open>this.moviLIST.aStreams\<close> and fills it in place through the alias \<^verbatim>\<open>list\<close>; here
  the filled array is assigned once, before \<^verbatim>\<open>dwSize\<close>. The objects that the source holds
  by reference in \<^verbatim>\<open>aData\<close> and \<^verbatim>\<open>aList\<close> are not changed after they are stored, so their
  values are stored.
\<close>

definition finish :: "MJPEGBuilder \<Rightarrow> MJPEGBuilder \<times> (error + blob)" where
  "finish this =
     (let frameCount = int (length (frameList this));
          IndexEntryOrder = [''chId'', ''dwFlags'', ''dwOffset'', ''dwLength''];
          (aStreams, frameIndices, frOffset, streamSize) =
            finish_loop IndexEntryOrder (frameList this) ([], [], 4, 0);
          (aStreams, frameIndices, streamSize) =
            (case audioBlob this of
               None \<Rightarrow> (aStreams, frameIndices, streamSize)
             | Some blob \<Rightarrow>
                 (let (aStreams, frsize) = addAudioStreamData aStreams blob;
                      frameIndices = frameIndices @
                        [Obj [(''chId'', Str ''01wb''),
                              (''dwFlags'', IntV AVIIF_KEYFRAME),
                              (''dwOffset'', IntV frOffset),
                              (''dwLength'', IntV (frsize - 8))]
                             (Some IndexEntryOrder)]
                  in (aStreams, frameIndices, streamSize + frsize)));
          moviLIST = assign (moviLIST this) ''aStreams'' (Arr aStreams);
          moviLIST = assign moviLIST ''dwSize'' (IntV (streamSize + 4));

          frameDu = Math_floor (js_div RateBase (fps (movieDesc this)));
          strh = finish_strh this frameDu;
          strf = finish_strf this;
          strl = finish_strl strh strf;
          strl_audio =
            (case audioBlob this of
               None \<Rightarrow> None
             | Some blob \<Rightarrow> Some (finish_strl_audio this frameCount strh));
          avih = finish_avih this frameDu;

          hdrlSize = 4;
          hdrlSize = hdrlSize + (getInt avih ''dwSize'' + 8);
          hdrlSize = hdrlSize + (getInt strl ''dwSize'' + 8);
          hdrlSize =
            (case strl_audio of
               None \<Rightarrow> hdrlSize
             | Some strl_audio \<Rightarrow> hdrlSize + (getInt strl_audio ''dwSize'' + 8));
          headerLIST = assign (headerLIST this) ''dwSize'' (IntV hdrlSize);
          headerLIST = assign headerLIST ''aData''
                         (Arr (case strl_audio of
                                 None \<Rightarrow> [avih, strl]
                               | Some strl_audio \<Rightarrow> [avih, strl, strl_audio]));

          indexChunk =
            Obj [(''chFourCC'', Str ''idx1''),
                 (''dwSize'', IntV (int (length frameIndices) * 16)),
                 (''aData'', Arr frameIndices)]
                (Some [''chFourCC'', ''dwSize'', ''aData'']);

          aviSize = 0;
          aviSize = aviSize + (8 + getInt headerLIST ''dwSize'');
          aviSize = aviSize + (8 + getInt moviLIST ''dwSize'');
          aviSize = aviSize + (8 + getInt indexChunk ''dwSize'');

          avi = assign (avi this) ''dwSize'' (IntV (aviSize + 4));
          avi = assign avi ''aData'' (Arr [headerLIST, moviLIST, indexChunk]);
          this = this\<lparr>avi := avi, headerLIST := headerLIST, moviLIST := moviLIST\<rparr>
      in (this,
          case appendStruct [] avi of
            Inl e \<Rightarrow> Inl e
          | Inr chunks \<Rightarrow> Inr \<lparr>blob_bytes = concat chunks, blob_type = ''video/avi''\<rparr>))"

text \<open>The builders a program can hold: made by the constructor and changed by the methods.\<close>

inductive reachable :: "MJPEGBuilder \<Rightarrow> bool" where
  new: "reachable MJPEGBuilder_new"
| setup_movie: "reachable this \<Longrightarrow> reachable (setup_movie frameWidth frameHeight rate this)"
| addFrame: "reachable this \<Longrightarrow> addFrame atob u this = Inr this' \<Longrightarrow> reachable this'"
| addAudio: "reachable this \<Longrightarrow> reachable (addAudio blob numChannels sampleRate this)"
| finish: "reachable this \<Longrightarrow> reachable (fst (finish this))"

section \<open>What the file must be\<close>

subsection \<open>Little-endian fields and RIFF chunks\<close>

text \<open>
  The encodings of the file format, by arithmetic: \<open>le16\<close> and \<open>le32\<close> are the two and
  four bytes of an integer modulo \<open>2^16\<close> and \<open>2^32\<close>, low byte first (\<open>word_of_int\<close>
  reduces modulo 256). A chunk is a four-character tag, the length of its payload and the
  payload; a list is a chunk whose payload starts with a second tag. \<open>bytes_at off n\<close>
  reads \<open>n\<close> bytes of a file from offset \<open>off\<close>.
\<close>

definition le16 :: "int \<Rightarrow> byte list" where
  "le16 x = [word_of_int x, word_of_int (x div 2 ^ 8)]"

definition le32 :: "int \<Rightarrow> byte list" where
  "le32 x =
     [word_of_int x, word_of_int (x div 2 ^ 8), word_of_int (x div 2 ^ 16),
      word_of_int (x div 2 ^ 24)]"

definition fourcc :: "string \<Rightarrow> byte list" where
  "fourcc s = map of_char s"

definition chunk :: "string \<Rightarrow> byte list \<Rightarrow> byte list" where
  "chunk tag payload = fourcc tag @ le32 (int (length payload)) @ payload"

definition list_chunk :: "string \<Rightarrow> string \<Rightarrow> byte list \<Rightarrow> byte list" where
  "list_chunk tag kind children = chunk tag (fourcc kind @ children)"

definition bytes_at :: "nat \<Rightarrow> nat \<Rightarrow> byte list \<Rightarrow> byte list" where
  "bytes_at off n file = take n (drop off file)"

subsection \<open>The headers\<close>

text \<open>
  The number the writer stores for a quotient of integers: the quotient truncated towards
  zero, and 0 for a division by zero (\<open>Infinity\<close> and \<open>NaN\<close> are written as 0).
  \<open>frame_duration\<close> is what is stored for \<^verbatim>\<open>Math.floor(RateBase / fps)\<close>.
\<close>

definition tquot :: "int \<Rightarrow> int \<Rightarrow> int" where
  "tquot a b = (if b = 0 then 0 else sgn a * sgn b * (\<bar>a\<bar> div \<bar>b\<bar>))"

definition frame_duration :: "int \<Rightarrow> int" where
  "frame_duration rate = (if rate = 0 then 0 else RateBase div rate)"

text \<open>
  The payloads of the five header chunks, field by field in the order of the \<^verbatim>\<open>_order\<close>
  lists: \<^verbatim>\<open>avih\<close>, the video \<^verbatim>\<open>strh\<close> and \<^verbatim>\<open>strf\<close> (a bitmap header), the audio \<^verbatim>\<open>strh\<close>
  and \<^verbatim>\<open>strf\<close> (a wave format record).
\<close>

definition avih_payload :: "MJPEGBuilder \<Rightarrow> byte list" where
  "avih_payload b =
     le32 (frame_duration (fps (movieDesc b)))
     @ le32 (maxJPEGSize (movieDesc b) * fps (movieDesc b))
     @ le32 0
     @ le32 AVIF_HASINDEX
     @ le32 (int (length (frameList b)))
     @ le32 0
     @ le32 2
     @ le32 0
     @ le32 (w (movieDesc b))
     @ le32 (h (movieDesc b))
     @ le32 0 @ le32 0 @ le32 0 @ le32 0"

definition strh_video_payload :: "MJPEGBuilder \<Rightarrow> byte list" where
  "strh_video_payload b =
     fourcc ''vids'' @ fourcc ''mjpg''
     @ le32 0 @ le16 0 @ le16 0 @ le32 0
     @ le32 (frame_duration (fps (movieDesc b)))
     @ le32 RateBase
     @ le32 0
     @ le32 (int (length (frameList b)))
     @ le32 0
     @ le32 10000
     @ le32 0
     @ le16 0 @ le16 0 @ le16 (w (movieDesc b)) @ le16 (h (movieDesc b))"

definition strf_video_payload :: "MJPEGBuilder \<Rightarrow> byte list" where
  "strf_video_payload b =
     le32 40
     @ le32 (w (movieDesc b))
     @ le32 (h (movieDesc b))
     @ le16 1 @ le16 24
     @ fourcc ''MJPG''
     @ le32 (3 * w (movieDesc b) * h (movieDesc b))
     @ le32 0 @ le32 0 @ le32 0 @ le32 0"

definition strh_audio_payload :: "MJPEGBuilder \<Rightarrow> byte list" where
  "strh_audio_payload b =
     fourcc ''auds'' @ [0, 0, 0, 0]
     @ le32 0 @ le16 0 @ le16 0 @ le32 0
     @ le32 1
     @ le32 (audioNumChannels b * audioSampleRate b)
     @ le32 0
     @ le32 (tquot (audioNumChannels b * audioSampleRate b * int (length (frameList b)))
                   (fps (movieDesc b)))
     @ le32 0
     @ le32 10000
     @ le32 2
     @ le16 0 @ le16 0 @ le16 0 @ le16 0"

definition strf_audio_payload :: "MJPEGBuilder \<Rightarrow> byte list" where
  "strf_audio_payload b =
     le16 1
     @ le16 (audioNumChannels b)
     @ le32 (audioSampleRate b)
     @ le32 (audioSampleRate b * audioNumChannels b)
     @ le16 2 @ le16 16 @ le16 0"

definition hdrl_children :: "MJPEGBuilder \<Rightarrow> byte list" where
  "hdrl_children b =
     chunk ''avih'' (avih_payload b)
     @ list_chunk ''LIST'' ''strl''
         (chunk ''strh'' (strh_video_payload b) @ chunk ''strf'' (strf_video_payload b))
     @ (case audioBlob b of
          None \<Rightarrow> []
        | Some blob \<Rightarrow>
            list_chunk ''LIST'' ''strl''
              (chunk ''strh'' (strh_audio_payload b) @ chunk ''strf'' (strf_audio_payload b)))"

subsection \<open>The data chunks, the index, the file\<close>

text \<open>
  One chunk \<^verbatim>\<open>00dc\<close> per frame, in the order of the frames, then one chunk \<^verbatim>\<open>01wb\<close> with
  the whole audio buffer. \<open>frames_extent\<close> is the number of bytes the video chunks take.
  An index entry is 16 bytes: tag, flags, offset, length.
\<close>

definition movi_children :: "MJPEGBuilder \<Rightarrow> byte list" where
  "movi_children b =
     concat (map (\<lambda>frame. chunk ''00dc'' (blob_bytes frame)) (frameList b))
     @ (case audioBlob b of
          None \<Rightarrow> []
        | Some blob \<Rightarrow> chunk ''01wb'' (blob_bytes blob))"

definition frames_extent :: "blob list \<Rightarrow> int" where
  "frames_extent frames = (\<Sum>frame\<leftarrow>frames. blob_size frame + 8)"

fun video_index :: "int \<Rightarrow> blob list \<Rightarrow> byte list" where
  "video_index off [] = []"
| "video_index off (frame # frames) =
     fourcc ''00dc'' @ le32 AVIIF_KEYFRAME @ le32 off @ le32 (blob_size frame)
     @ video_index (off + blob_size frame + 8) frames"

definition idx1_payload :: "MJPEGBuilder \<Rightarrow> byte list" where
  "idx1_payload b =
     video_index 4 (frameList b)
     @ (case audioBlob b of
          None \<Rightarrow> []
        | Some blob \<Rightarrow>
            fourcc ''01wb'' @ le32 AVIIF_KEYFRAME
            @ le32 (4 + frames_extent (frameList b)) @ le32 (blob_size blob))"

definition avi_file :: "MJPEGBuilder \<Rightarrow> byte list" where
  "avi_file b =
     chunk ''RIFF''
       (fourcc ''AVI ''
        @ list_chunk ''LIST'' ''hdrl'' (hdrl_children b)
        @ list_chunk ''LIST'' ''movi'' (movi_children b)
        @ chunk ''idx1'' (idx1_payload b))"

subsection \<open>The index, as numbers\<close>



definition chunk_offset :: "int list \<Rightarrow> nat \<Rightarrow> int" where
  "chunk_offset sizes i = 4 + (\<Sum>s\<leftarrow>take i sizes. s + 8)"

section \<open>The descriptors \<^verbatim>\<open>finish\<close> builds\<close>

text \<open>
  The descriptor that \<^verbatim>\<open>addVideoStreamData\<close> and \<^verbatim>\<open>addAudioStreamData\<close> push for a blob, an
  entry of \<^verbatim>\<open>frameIndices\<close>, and the lists of them that the loop of \<^verbatim>\<open>finish\<close> produces.
\<close>

definition video_chunk :: "blob \<Rightarrow> jsval" where
  "video_chunk blob =
     Obj [(''chType'', Str ''00dc''),
          (''dwSize'', IntV (blob_size blob)),
          (''handler'', Fn (\<lambda>bb. bb @ [blob_bytes blob]))]
         (Some [''chType'', ''dwSize'', ''handler''])"

definition audio_chunk :: "blob \<Rightarrow> jsval" where
  "audio_chunk blob =
     Obj [(''chType'', Str ''01wb''),
          (''dwSize'', IntV (blob_size blob)),
          (''handler'', Fn (\<lambda>bb. bb @ [blob_bytes blob]))]
         (Some [''chType'', ''dwSize'', ''handler''])"

definition index_entry :: "string \<Rightarrow> int \<Rightarrow> int \<Rightarrow> jsval" where
  "index_entry tag off len =
     Obj [(''chId'', Str tag),
          (''dwFlags'', IntV AVIIF_KEYFRAME),
          (''dwOffset'', IntV off),
          (''dwLength'', IntV len)]
         (Some [''chId'', ''dwFlags'', ''dwOffset'', ''dwLength''])"

fun video_entries :: "int \<Rightarrow> blob list \<Rightarrow> jsval list" where
  "video_entries off [] = []"
| "video_entries off (frame # frames) =
     index_entry ''00dc'' off (blob_size frame)
     # video_entries (off + blob_size frame + 8) frames"

definition index_entries :: "MJPEGBuilder \<Rightarrow> jsval list" where
  "index_entries b =
     video_entries 4 (frameList b)
     @ (case audioBlob b of
          None \<Rightarrow> []
        | Some blob \<Rightarrow>
            [index_entry ''01wb'' (4 + frames_extent (frameList b)) (blob_size blob)])"

definition movi_streams :: "MJPEGBuilder \<Rightarrow> jsval list" where
  "movi_streams b =
     map video_chunk (frameList b)
     @ (case audioBlob b of None \<Rightarrow> [] | Some blob \<Rightarrow> [audio_chunk blob])"

definition index_chunk :: "MJPEGBuilder \<Rightarrow> jsval" where
  "index_chunk b =
     Obj [(''chFourCC'', Str ''idx1''),
          (''dwSize'', IntV (int (length (index_entries b)) * 16)),
          (''aData'', Arr (index_entries b))]
         (Some [''chFourCC'', ''dwSize'', ''aData''])"

fun video_index_parts :: "int \<Rightarrow> blob list \<Rightarrow> sink" where
  "video_index_parts off [] = []"
| "video_index_parts off (frame # frames) =
     [fourcc ''00dc'', le32 AVIIF_KEYFRAME, le32 off, le32 (blob_size frame)]
     @ video_index_parts (off + blob_size frame + 8) frames"

text \<open>
  The three descriptors the constructor stores in the builder, with the two properties
  \<^verbatim>\<open>finish\<close> assigns left open. Every builder a program can hold has them in this shape.
\<close>

definition avi_shape :: "jsval \<Rightarrow> jsval \<Rightarrow> jsval" where
  "avi_shape x y =
     Obj [(''chRIFF'', Str ''RIFF''), (''chFourCC'', Str ''AVI ''), (''dwSize'', x), (''aData'', y)]
         (Some [''chRIFF'', ''dwSize'', ''chFourCC'', ''aData''])"

definition hdrl_shape :: "jsval \<Rightarrow> jsval \<Rightarrow> jsval" where
  "hdrl_shape x y =
     Obj [(''chLIST'', Str ''LIST''), (''dwSize'', x), (''chFourCC'', Str ''hdrl''), (''aData'', y)]
         (Some [''chLIST'', ''dwSize'', ''chFourCC'', ''aData''])"

definition movi_shape :: "jsval \<Rightarrow> jsval \<Rightarrow> jsval" where
  "movi_shape x y =
     Obj [(''chLIST'', Str ''LIST''), (''dwSize'', x), (''chFourCC'', Str ''movi''), (''aStreams'', y)]
         (Some [''chLIST'', ''dwSize'', ''chFourCC'', ''aStreams''])"

definition shaped :: "MJPEGBuilder \<Rightarrow> bool" where
  "shaped b \<longleftrightarrow>
     (\<exists>x y. avi b = avi_shape x y) \<and> (\<exists>x y. headerLIST b = hdrl_shape x y)
     \<and> (\<exists>x y. moviLIST b = movi_shape x y)"

section \<open>The writer, specified\<close>




text \<open>
  The encoding rules. \<open>written_int\<close> is the integer a numeric field stands for: the number
  truncated, 0 when it is not finite or not there. \<open>spec_write\<close> is the sink after the
  record is written: for each field in order, one byte; two bytes, low then high; two bytes,
  high then low; four bytes; the characters or the bytes as they are; the nested record;
  the records of the array; what the handler makes of the sink.
\<close>

definition written_int :: "jsval \<Rightarrow> int" where
  "written_int v = (case v of Num (Fin q) \<Rightarrow> trunc q | _ \<Rightarrow> 0)"

function spec_write :: "sink \<Rightarrow> jsval \<Rightarrow> sink" where
  "spec_write bb s =
     (case s of
        Obj props (Some od) \<Rightarrow>
          fold (\<lambda>fieldName bb.
                  case fieldName of
                    [] \<Rightarrow> bb
                  | c # _ \<Rightarrow>
                      (let v = getprop props fieldName in
                       if c = CHR ''b'' then bb @ [[word_of_int (written_int v)]]
                       else if c = CHR ''w'' then bb @ [le16 (written_int v)]
                       else if c = CHR ''W'' then bb @ [rev (le16 (written_int v))]
                       else if c = CHR ''d'' then bb @ [le32 (written_int v)]
                       else if c = CHR ''c'' \<or> c = CHR ''r'' then
                         (case v of
                            Str t \<Rightarrow> bb @ [map of_char t]
                          | Buf x \<Rightarrow> bb @ [x]
                          | _ \<Rightarrow> bb)
                       else if c = CHR ''s'' then spec_write bb v
                       else if c = CHR ''a'' then
                         (case v of
                            Arr xs \<Rightarrow> fold (\<lambda>x bb. spec_write bb x) xs bb
                          | _ \<Rightarrow> bb)
                       else if c = CHR ''h'' then
                         (case v of Fn f \<Rightarrow> f bb | _ \<Rightarrow> bb)
                       else bb))
               od bb
      | _ \<Rightarrow> bb)"
  by pat_completeness auto
termination
proof (relation "measure (\<lambda>(bb, s). size s)", goal_cases)
  case 1
  show ?case by simp
next
  case (2 bb s props order od fieldName bb' c cs v)
  have "size (getprop ps n) \<le> size_list (size_prod (\<lambda>_. 0) size) ps" for ps n
    by (induction ps) (auto simp: getprop_def split: option.splits)
  from this [of props fieldName] 2 show ?case by simp
next
  case (3 bb s props order od fieldName bb' c cs v xs x bb'')
  have "size (getprop ps n) \<le> size_list (size_prod (\<lambda>_. 0) size) ps" for ps n
    by (induction ps) (auto simp: getprop_def split: option.splits)
  moreover from 3 have "getprop props fieldName = Arr xs" by simp
  ultimately have "size (Arr xs) \<le> size_list (size_prod (\<lambda>_. 0) size) props"
    by metis
  moreover from 3 have "x \<in> set xs" by simp
  then have "size x < size (Arr xs)"
    by (simp add: size_list_estimation' less_Suc_eq_le)
  ultimately show ?case using 3 by simp
qed

text \<open>
  The same three notions for one field of a record, the two errors of the writer's own
  \<^verbatim>\<open>throw\<close> statements, and the relation between a result of the writer and what is
  expected of it.
\<close>

definition schema_error :: "error \<Rightarrow> bool" where
  "schema_error e = (case e of MissingOrder \<Rightarrow> True | UnknownType n \<Rightarrow> True | _ \<Rightarrow> False)"




definition agrees :: "error + sink \<Rightarrow> bool \<Rightarrow> sink \<Rightarrow> bool" where
  "agrees r ok bb' = (if ok then r = Inr bb' else (\<exists>e. r = Inl e \<and> schema_error e))"

section \<open>\<^verbatim>\<open>addFrame\<close>, specified; examples\<close>

text \<open>The stored frame: the decoded bytes, and one zero byte when their number is odd.\<close>

definition pad_even :: "byte list \<Rightarrow> byte list" where
  "pad_even frame = (if odd (length frame) then frame @ [0] else frame)"

text \<open>
  A base64 decoder to run \<^verbatim>\<open>addFrame\<close> on, as \<^verbatim>\<open>window.atob\<close> decodes: white space is
  dropped, one or two closing \<^verbatim>\<open>=\<close> are dropped when the length is a multiple of 4, a
  length of 1 modulo 4 or a character outside the alphabet is an error, and the bits left
  over at the end are discarded.
\<close>

definition base64_alphabet :: string where
  "base64_alphabet = ''ABCDEFGHIJKLMNOPQRSTUVWXYZabcdefghijklmnopqrstuvwxyz0123456789+/''"

fun sextet_of :: "string \<Rightarrow> char \<Rightarrow> nat option" where
  "sextet_of [] c = None"
| "sextet_of (a # alphabet) c =
     (if a = c then Some 0 else map_option Suc (sextet_of alphabet c))"

fun decode_sextets :: "nat list \<Rightarrow> byte list" where
  "decode_sextets (a # b # c # d # rest) =
     [of_nat (a * 4 + b div 16), of_nat (b mod 16 * 16 + c div 4), of_nat (c mod 4 * 64 + d)]
     @ decode_sextets rest"
| "decode_sextets [a, b, c] = [of_nat (a * 4 + b div 16), of_nat (b mod 16 * 16 + c div 4)]"
| "decode_sextets [a, b] = [of_nat (a * 4 + b div 16)]"
| "decode_sextets rest = []"

definition strip_padding :: "string \<Rightarrow> string" where
  "strip_padding data =
     (if length data mod 4 = 0 \<and> data \<noteq> [] \<and> last data = CHR ''=''
      then (let data = butlast data
            in if data \<noteq> [] \<and> last data = CHR ''='' then butlast data else data)
      else data)"

definition atob_base64 :: "string \<Rightarrow> byte list option" where
  "atob_base64 data =
     (let data = filter (\<lambda>c. c \<notin> set [CHR 0x09, CHR 0x0A, CHR 0x0C, CHR 0x0D, CHR '' '']) data;
          data = strip_padding data
      in if length data mod 4 = 1 then None
         else map_option decode_sextets (those (map (sextet_of base64_alphabet) data)))"

text \<open>
  A recording of two frames (of 4 and of 5 decoded bytes) at 320 by 240 and 10 frames per
  second, the same with a mono track at 8000 Hz and with a stereo track at 44100 Hz, and
  two records for the writer.
\<close>

definition example_video :: MJPEGBuilder where
  "example_video =
     projr (addFrame atob_base64 ''data:image/jpeg;base64,/9j/4Nk=''
       (projr (addFrame atob_base64 ''data:image/jpeg;base64,/9j/2Q==''
          (setup_movie 320 240 10 MJPEGBuilder_new))))"

definition example_pcm :: blob where
  "example_pcm = \<lparr>blob_bytes = [1, 0, 2, 0, 3, 0], blob_type = ''audio/raw''\<rparr>"

definition example_av :: MJPEGBuilder where
  "example_av = addAudio example_pcm 1 8000 example_video"

definition example_stereo :: MJPEGBuilder where
  "example_stereo = addAudio example_pcm 2 44100 example_video"



section \<open>Properties of the embedding\<close>

subsection \<open>Numbers\<close>

lemma trunc_of_int [simp]: "trunc (of_int x) = x"
  by (simp add: trunc_def)

lemma to_int_jsint [simp]: "to_int (jsint k) = k"
  by (simp add: jsint_def)

lemma ToInt32_cong: "take_bit 32 (ToInt32 (Fin q)) = take_bit 32 (trunc q)"
  by (simp add: Let_def take_bit_eq_mod)

lemma byte_of_shift:
  assumes "take_bit 32 y = take_bit 32 (x::int)" and "k \<le> 24"
  shows "(word_of_int (drop_bit k y AND 0xff) :: byte) = word_of_int (x div 2 ^ k)"

proof -
  have m: "(0xff::int) = mask 8" by (simp add: mask_eq_exp_minus_1)
  have b: "bit y n = bit x n" if "n < 32" for n
    using assms(1) that by (metis bit_take_bit_iff)
  show ?thesis
    unfolding m
    by (rule bit_word_eqI) (use assms(2) in \<open>auto simp: bit_simps b simp flip: drop_bit_eq_div\<close>)

qed

lemma byte_of_low:
  assumes "take_bit 32 y = take_bit 32 (x::int)"
  shows "(word_of_int (y AND 0xff) :: byte) = word_of_int x"
  using byte_of_shift [OF assms, of 0] by simp

lemma DWORD_Fin: "DWORD (Fin q) = le32 (trunc q)"
  unfolding DWORD_def le32_def
  by (simp only: byte_of_shift [OF ToInt32_cong] byte_of_low [OF ToInt32_cong])

lemma WORD_Fin: "WORD (Fin q) = le16 (trunc q)"
  unfolding WORD_def le16_def
  by (simp only: byte_of_shift [OF ToInt32_cong] byte_of_low [OF ToInt32_cong])

lemma DWORD_jsint [simp]: "DWORD (jsint x) = le32 x"
  by (simp add: jsint_def DWORD_Fin)

lemma WORD_jsint [simp]: "WORD (jsint x) = le16 x"
  by (simp add: jsint_def WORD_Fin)

lemma DWORD_nonfinite: "DWORD PosInf = le32 0" "DWORD NegInf = le32 0" "DWORD NaN = le32 0"
  by (simp_all add: DWORD_def le32_def)

lemma trunc_tquot: "b \<noteq> 0 \<Longrightarrow> trunc (of_int a / of_int b) = tquot a b"

proof -
  assume b: "b \<noteq> 0"
  define q :: rat where "q = of_int a / of_int b"
  have fl: "\<lfloor>q\<rfloor> = a div b"
    by (simp add: q_def floor_divide_of_int_eq)
  have flm: "\<lfloor>- q\<rfloor> = (- a) div b"
    using floor_divide_of_int_eq [of "- a" b, where ?'a = rat] by (simp add: q_def)
  have sg: "q < 0 \<longleftrightarrow> (a < 0 \<and> 0 < b) \<or> (0 < a \<and> b < 0)"
    using b by (auto simp: q_def divide_less_0_iff)
  consider "0 \<le> a" "0 < b" | "a < 0" "0 < b" | "0 < a" "b < 0" | "a \<le> 0" "b < 0"
    using b by linarith
  then have "(if q < 0 then - \<lfloor>- q\<rfloor> else \<lfloor>q\<rfloor>) = tquot a b"
  proof cases
    case 1
    then have "\<not> q < 0" using sg by simp
    with 1 show ?thesis by (cases "a = 0") (simp_all add: fl tquot_def)
  next
    case 2
    then have "q < 0" using sg by simp
    with 2 show ?thesis by (simp add: flm tquot_def)
  next
    case 3
    then have "q < 0" using sg by simp
    moreover have "(- a) div b = a div (- b)" by (metis div_minus_right minus_minus)
    ultimately show ?thesis using 3 by (simp add: flm tquot_def)
  next
    case 4
    then have "\<not> q < 0" using sg by simp
    moreover have "a div b = (- a) div (- b)" by simp
    ultimately show ?thesis using 4 by (cases "a = 0") (simp_all add: fl tquot_def)
  qed
  then show ?thesis unfolding trunc_def q_def .

qed

lemma tquot_nonneg: "0 \<le> a \<Longrightarrow> 0 < b \<Longrightarrow> tquot a b = a div b"
  by (cases "a = 0") (simp_all add: tquot_def)

lemma DWORD_js_div [simp]: "DWORD (js_div a b) = le32 (tquot a b)"

proof (cases "b = 0")
  case True
  then show ?thesis by (simp add: js_div_def DWORD_nonfinite tquot_def)

next
  case False
  then show ?thesis by (simp add: js_div_def DWORD_Fin trunc_tquot)

qed

lemma DWORD_frameDu [simp]:
  "DWORD (Math_floor (js_div RateBase rate)) = le32 (frame_duration rate)"

proof (cases "rate = 0")
  case True
  then show ?thesis by (simp add: js_div_def RateBase_def frame_duration_def DWORD_nonfinite)

next
  case False
  then show ?thesis by (simp add: js_div_def floor_divide_of_int_eq frame_duration_def)

qed

lemma length_le [simp]: "length (le32 x) = 4" "length (le16 x) = 2"
  by (simp_all add: le32_def le16_def)

lemma length_fourcc [simp]: "length (fourcc s) = length s"
  by (simp add: fourcc_def)

lemma length_chunk [simp]: "length (chunk tag payload) = length tag + 4 + length payload"
  by (simp add: chunk_def)

lemma length_list_chunk [simp]:
  "length (list_chunk tag kind children) = length tag + 4 + length kind + length children"
  by (simp add: list_chunk_def)

subsection \<open>Evaluating the writer\<close>

lemma getprop_simps [simp]:
  "getprop [] n = Null"
  "getprop ((k, v) # ps) n = (if k = n then v else getprop ps n)"
  by (simp_all add: getprop_def)

lemma field_Obj [simp]: "field (Obj props order) name = getprop props name"
  by (simp add: field_def)

lemma appendStruct_Obj [simp]:
  "appendStruct bb (Obj props (Some od)) = appendFields bb props od"
  by simp

lemma appendFields_d:
  "appendFields bb props ((CHR ''d'' # n) # rest) =
     (case ToNumeric (getprop props (CHR ''d'' # n)) of
        Some v \<Rightarrow> appendFields (bb @ [DWORD v]) props rest
      | None \<Rightarrow> Inl (Coerced (CHR ''d'' # n)))"
  by (simp split: option.splits)

lemma appendFields_w:
  "appendFields bb props ((CHR ''w'' # n) # rest) =
     (case ToNumeric (getprop props (CHR ''w'' # n)) of
        Some v \<Rightarrow> appendFields (bb @ [WORD v]) props rest
      | None \<Rightarrow> Inl (Coerced (CHR ''w'' # n)))"
  by (simp split: option.splits)

lemma appendFields_c:
  "appendFields bb props ((CHR ''c'' # n) # rest) =
     (case pushable (getprop props (CHR ''c'' # n)) of
        Some p \<Rightarrow> appendFields (bb @ [p]) props rest
      | None \<Rightarrow> Inl (Coerced (CHR ''c'' # n)))"
  by (simp split: option.splits)

lemma appendFields_s:
  "appendFields bb props ((CHR ''s'' # n) # rest) =
     (case appendStruct bb (getprop props (CHR ''s'' # n)) of
        Inr bb' \<Rightarrow> appendFields bb' props rest
      | Inl e \<Rightarrow> Inl e)"
  by (simp split: sum.splits)

lemma appendFields_a:
  "appendFields bb props ((CHR ''a'' # n) # rest) =
     (case getprop props (CHR ''a'' # n) of
        Arr xs \<Rightarrow> (case appendArray bb xs of
                     Inr bb' \<Rightarrow> appendFields bb' props rest
                   | Inl e \<Rightarrow> Inl e)
      | Null \<Rightarrow> Inl TypeError
      | _ \<Rightarrow> Inl (Coerced (CHR ''a'' # n)))"
  by (simp split: sum.splits jsval.splits)

lemma appendFields_h:
  "appendFields bb props ((CHR ''h'' # n) # rest) =
     (case getprop props (CHR ''h'' # n) of
        Fn f \<Rightarrow> appendFields (f bb) props rest
      | _ \<Rightarrow> Inl TypeError)"
  by (simp split: sum.splits jsval.splits)

lemmas appendFields_rules =
  appendFields_d appendFields_w appendFields_c appendFields_s appendFields_a appendFields_h

declare appendStruct.simps [simp del] appendFields.simps(2) [simp del]

lemma pushable_Str [simp]: "pushable (Str s) = Some (fourcc s)"
  by (simp add: fourcc_def)

declare pushable.simps(1) [simp del]

lemma getInt_Obj [simp]:
  "getInt (Obj props order) name = (case getprop props name of Num n \<Rightarrow> to_int n | _ \<Rightarrow> 0)"
  by (simp add: getInt_def)

subsection \<open>The blocks of \<^verbatim>\<open>finish\<close>\<close>

lemma strh_size [simp]: "getInt (finish_strh b frameDu) ''dwSize'' = 56"
  by (simp add: finish_strh_def createStreamHeader_def)

lemma strf_size [simp]: "getInt (finish_strf b) ''dwSize'' = 40"
  by (simp add: finish_strf_def createStreamFormat_def createBitmapHeader_def)

lemma strl_size [simp]:
  "getInt (finish_strl (finish_strh b frameDu) (finish_strf b)) ''dwSize'' = 116"
  by (simp add: finish_strl_def createStreamHeaderLIST_def)

lemma strl_audio_size [simp]:
  "getInt (finish_strl_audio b n (finish_strh b frameDu)) ''dwSize'' = 94"
  by (simp add: finish_strl_audio_def createStreamHeaderLIST_def createStreamFormat_def Let_def)

lemma avih_size [simp]: "getInt (finish_avih b frameDu) ''dwSize'' = 56"
  by (simp add: finish_avih_def createAVIMainHeader_def)

lemma appendStruct_strh:
  "appendStruct bb (finish_strh b (Math_floor (js_div RateBase (fps (movieDesc b))))) =
     Inr (bb @ [fourcc ''strh'', le32 56, fourcc ''vids'', fourcc ''mjpg'',
                le32 0, le16 0, le16 0, le32 0,
                le32 (frame_duration (fps (movieDesc b))),
                le32 RateBase, le32 0, le32 (int (length (frameList b))), le32 0,
                le32 10000, le32 0, le16 0, le16 0,
                le16 (w (movieDesc b)), le16 (h (movieDesc b))])"
  by (simp add: finish_strh_def createStreamHeader_def appendFields_rules)

lemma appendStruct_strf:
  "appendStruct bb (finish_strf b) =
     Inr (bb @ [fourcc ''strf'', le32 40,
                le32 40, le32 (w (movieDesc b)), le32 (h (movieDesc b)), le16 1, le16 24,
                fourcc ''MJPG'', le32 (3 * w (movieDesc b) * h (movieDesc b)),
                le32 0, le32 0, le32 0, le32 0])"
  by (simp add: finish_strf_def createStreamFormat_def createBitmapHeader_def appendFields_rules)

lemma appendStruct_strl:
  "appendStruct bb
     (finish_strl (finish_strh b (Math_floor (js_div RateBase (fps (movieDesc b)))))
        (finish_strf b)) =
     Inr (bb @ [fourcc ''LIST'', le32 116, fourcc ''strl'',
                fourcc ''strh'', le32 56, fourcc ''vids'', fourcc ''mjpg'',
                le32 0, le16 0, le16 0, le32 0,
                le32 (frame_duration (fps (movieDesc b))),
                le32 RateBase, le32 0, le32 (int (length (frameList b))), le32 0,
                le32 10000, le32 0, le16 0, le16 0,
                le16 (w (movieDesc b)), le16 (h (movieDesc b)),
                fourcc ''strf'', le32 40,
                le32 40, le32 (w (movieDesc b)), le32 (h (movieDesc b)), le16 1, le16 24,
                fourcc ''MJPG'', le32 (3 * w (movieDesc b) * h (movieDesc b)),
                le32 0, le32 0, le32 0, le32 0])"
  by (simp add: finish_strl_def createStreamHeaderLIST_def appendFields_rules
      appendStruct_strh appendStruct_strf)

lemma appendStruct_strl_audio:
  "appendStruct bb (finish_strl_audio b (int (length (frameList b))) (finish_strh b frameDu)) =
     Inr (bb @ [fourcc ''LIST'', le32 94, fourcc ''strl'',
                fourcc ''strh'', le32 56, fourcc ''auds'', [0, 0, 0, 0],
                le32 0, le16 0, le16 0, le32 0,
                le32 1,
                le32 (audioNumChannels b * audioSampleRate b),
                le32 0,
                le32 (tquot (audioNumChannels b * audioSampleRate b * int (length (frameList b)))
                            (fps (movieDesc b))),
                le32 0, le32 10000, le32 2, le16 0, le16 0, le16 0, le16 0,
                fourcc ''strf'', le32 18,
                le16 1, le16 (audioNumChannels b), le32 (audioSampleRate b),
                le32 (audioSampleRate b * audioNumChannels b), le16 2, le16 16, le16 0])"
  by (simp add: finish_strl_audio_def createStreamHeaderLIST_def createStreamHeader_def
      createStreamFormat_def createWavHeader_def appendFields_rules Let_def)
     (simp add: fourcc_def)

lemma appendStruct_avih:
  "appendStruct bb (finish_avih b (Math_floor (js_div RateBase (fps (movieDesc b))))) =
     Inr (bb @ [fourcc ''avih'', le32 56,
                le32 (frame_duration (fps (movieDesc b))),
                le32 (maxJPEGSize (movieDesc b) * fps (movieDesc b)),
                le32 0, le32 AVIF_HASINDEX, le32 (int (length (frameList b))), le32 0, le32 2,
                le32 0, le32 (w (movieDesc b)), le32 (h (movieDesc b)),
                le32 0, le32 0, le32 0, le32 0])"
  by (simp add: finish_avih_def createAVIMainHeader_def appendFields_rules)

subsection \<open>The loops of \<^verbatim>\<open>finish\<close>\<close>

lemma addVideoStreamData_eq:
  "addVideoStreamData list blob = (list @ [video_chunk blob], blob_size blob + 8)"
  by (simp add: addVideoStreamData_def createMoviStream_def video_chunk_def)

lemma addAudioStreamData_eq:
  "addAudioStreamData list blob = (list @ [audio_chunk blob], blob_size blob + 8)"
  by (simp add: addAudioStreamData_def createMoviStream_def audio_chunk_def)

lemma frames_extent_simps [simp]:
  "frames_extent [] = 0"
  "frames_extent (frame # frames) = blob_size frame + 8 + frames_extent frames"
  by (simp_all add: frames_extent_def)

lemma finish_loop_eq:
  "finish_loop [''chId'', ''dwFlags'', ''dwOffset'', ''dwLength''] frames
       (aStreams, frameIndices, frOffset, streamSize) =
     (aStreams @ map video_chunk frames,
      frameIndices @ video_entries frOffset frames,
      frOffset + frames_extent frames,
      streamSize + frames_extent frames)"
  by (induction frames arbitrary: aStreams frameIndices frOffset streamSize)
     (simp_all add: addVideoStreamData_eq index_entry_def add.assoc)

lemma appendArray_append:
  "appendArray bb (xs @ ys) =
     (case appendArray bb xs of Inl e \<Rightarrow> Inl e | Inr bb' \<Rightarrow> appendArray bb' ys)"
  by (induction xs arbitrary: bb) (simp_all split: sum.splits)

lemma appendStruct_video_chunk:
  "appendStruct bb (video_chunk blob) =
     Inr (bb @ [fourcc ''00dc'', le32 (blob_size blob), blob_bytes blob])"
  by (simp add: video_chunk_def appendFields_rules)

lemma appendStruct_audio_chunk:
  "appendStruct bb (audio_chunk blob) =
     Inr (bb @ [fourcc ''01wb'', le32 (blob_size blob), blob_bytes blob])"
  by (simp add: audio_chunk_def appendFields_rules)

lemma appendStruct_index_entry:
  "appendStruct bb (index_entry tag off len) =
     Inr (bb @ [fourcc tag, le32 AVIIF_KEYFRAME, le32 off, le32 len])"
  by (simp add: index_entry_def appendFields_rules)

lemma appendArray_video:
  "appendArray bb (map video_chunk frames) =
     Inr (bb @ concat (map (\<lambda>frame. [fourcc ''00dc'', le32 (blob_size frame), blob_bytes frame])
                         frames))"
  by (induction frames arbitrary: bb) (simp_all add: appendStruct_video_chunk)

lemma appendArray_video_entries:
  "appendArray bb (video_entries off frames) = Inr (bb @ video_index_parts off frames)"
  by (induction frames arbitrary: bb off) (simp_all add: appendStruct_index_entry)

lemma concat_video_parts:
  "concat (concat (map (\<lambda>frame. [fourcc ''00dc'', le32 (blob_size frame), blob_bytes frame])
                     frames)) =
     concat (map (\<lambda>frame. chunk ''00dc'' (blob_bytes frame)) frames)"
  by (induction frames) (simp_all add: chunk_def blob_size_def)

lemma concat_video_index_parts:
  "concat (video_index_parts off frames) = video_index off frames"
  by (induction frames arbitrary: off) simp_all

lemma length_video_index [simp]: "length (video_index off frames) = 16 * length frames"
  by (induction frames arbitrary: off) simp_all

lemma length_video_entries [simp]: "length (video_entries off frames) = length frames"
  by (induction frames arbitrary: off) simp_all

lemma length_video_chunks:
  "int (length (concat (map (\<lambda>frame. chunk ''00dc'' (blob_bytes frame)) frames))) =
     frames_extent frames"
  by (induction frames) (simp_all add: blob_size_def)

lemma length_movi_children:
  "int (length (movi_children b)) =
     frames_extent (frameList b)
     + (case audioBlob b of None \<Rightarrow> 0 | Some blob \<Rightarrow> blob_size blob + 8)"
  by (simp add: movi_children_def length_video_chunks blob_size_def split: option.splits)

lemma length_payloads [simp]:
  "length (avih_payload b) = 56"
  "length (strh_video_payload b) = 56"
  "length (strf_video_payload b) = 40"
  "length (strh_audio_payload b) = 56"
  "length (strf_audio_payload b) = 18"
  by (simp_all add: avih_payload_def strh_video_payload_def strf_video_payload_def
      strh_audio_payload_def strf_audio_payload_def)

lemma length_hdrl_children:
  "length (hdrl_children b) = (case audioBlob b of None \<Rightarrow> 188 | Some blob \<Rightarrow> 290)"
  by (simp add: hdrl_children_def split: option.splits)

lemma length_idx1_payload:
  "length (idx1_payload b) =
     16 * (length (frameList b) + (case audioBlob b of None \<Rightarrow> 0 | Some blob \<Rightarrow> 1))"
  by (simp add: idx1_payload_def split: option.splits)

subsection \<open>The output of \<^verbatim>\<open>finish\<close>\<close>

lemma avi_file_flat:
  "avi_file b =
     fourcc ''RIFF''
     @ le32 (4 + (8 + (4 + int (length (hdrl_children b))))
               + (8 + (4 + int (length (movi_children b))))
               + (8 + int (length (idx1_payload b))))
     @ fourcc ''AVI ''
     @ fourcc ''LIST'' @ le32 (4 + int (length (hdrl_children b))) @ fourcc ''hdrl''
     @ hdrl_children b
     @ fourcc ''LIST'' @ le32 (4 + int (length (movi_children b))) @ fourcc ''movi''
     @ movi_children b
     @ fourcc ''idx1'' @ le32 (int (length (idx1_payload b))) @ idx1_payload b"
  by (simp add: avi_file_def chunk_def list_chunk_def algebra_simps)

lemma finish_output_shapes:
  assumes "avi b = avi_shape x1 y1" "headerLIST b = hdrl_shape x2 y2"
    "moviLIST b = movi_shape x3 y3"
  shows "snd (finish b) = Inr \<lparr>blob_bytes = avi_file b, blob_type = ''video/avi''\<rparr>"

proof (cases "audioBlob b")
  case None
  show ?thesis
    using assms None
    apply (simp add: finish_def Let_def finish_loop_eq avi_shape_def hdrl_shape_def movi_shape_def)
    apply (simp add: appendFields_rules appendStruct_avih appendStruct_strl
        appendArray_video appendArray_video_entries)
    apply (simp add: concat_video_parts concat_video_index_parts)
    apply (simp add: avi_file_flat length_movi_children length_hdrl_children length_idx1_payload)
    apply (simp add: hdrl_children_def chunk_def list_chunk_def
       avih_payload_def strh_video_payload_def strf_video_payload_def)
    apply (simp add: idx1_payload_def movi_children_def chunk_def algebra_simps)
    done

next
  case (Some blob)
  show ?thesis
    using assms Some
    apply (simp add: finish_def Let_def finish_loop_eq avi_shape_def hdrl_shape_def movi_shape_def
        addAudioStreamData_eq)
    apply (simp add: appendFields_rules appendStruct_avih appendStruct_strl appendStruct_strl_audio
        appendArray_video appendArray_video_entries appendArray_append
        appendStruct_audio_chunk appendStruct_index_entry)
    apply (simp add: concat_video_parts concat_video_index_parts)
    apply (simp add: avi_file_flat length_movi_children length_hdrl_children length_idx1_payload)
    apply (simp add: hdrl_children_def chunk_def list_chunk_def
       avih_payload_def strh_video_payload_def strf_video_payload_def
       strh_audio_payload_def strf_audio_payload_def)
    apply (simp add: idx1_payload_def movi_children_def chunk_def blob_size_def algebra_simps)
    done

qed

subsection \<open>The invariant of the builder\<close>

lemma finish_keeps [simp]:
  "frameList (fst (finish b)) = frameList b"
  "audioBlob (fst (finish b)) = audioBlob b"
  "audioNumChannels (fst (finish b)) = audioNumChannels b"
  "audioSampleRate (fst (finish b)) = audioSampleRate b"
  "movieDesc (fst (finish b)) = movieDesc b"
  by (simp_all add: finish_def Let_def split_def)

lemma finish_moviLIST:
  assumes "moviLIST b = movi_shape x y"
  shows "moviLIST (fst (finish b)) =
     movi_shape (IntV (int (length (movi_children b)) + 4)) (Arr (movi_streams b))"
  using assms
  by (cases "audioBlob b")
     (simp_all add: finish_def Let_def finish_loop_eq movi_shape_def addAudioStreamData_eq
       movi_streams_def length_movi_children)

lemma finish_headerLIST:
  assumes "headerLIST b = hdrl_shape x y"
  shows "headerLIST (fst (finish b)) =
     hdrl_shape (IntV (int (length (hdrl_children b)) + 4))
       (Arr (finish_avih b (Math_floor (js_div RateBase (fps (movieDesc b))))
             # finish_strl (finish_strh b (Math_floor (js_div RateBase (fps (movieDesc b)))))
                 (finish_strf b)
             # (case audioBlob b of
                  None \<Rightarrow> []
                | Some blob \<Rightarrow>
                    [finish_strl_audio b (int (length (frameList b)))
                       (finish_strh b (Math_floor (js_div RateBase (fps (movieDesc b)))))])))"
  using assms
  by (cases "audioBlob b")
     (simp_all add: finish_def Let_def split_def hdrl_shape_def length_hdrl_children)

lemma finish_avi:
  assumes "avi b = avi_shape x1 y1" "headerLIST b = hdrl_shape x2 y2"
    "moviLIST b = movi_shape x3 y3"
  shows "avi (fst (finish b)) =
     avi_shape (IntV (int (length (avi_file b)) - 8))
       (Arr [headerLIST (fst (finish b)), moviLIST (fst (finish b)), index_chunk b])"
  unfolding finish_headerLIST [OF assms(2)] finish_moviLIST [OF assms(3)]
  using assms
  apply (cases "audioBlob b")
   apply (simp_all add: finish_def Let_def finish_loop_eq addAudioStreamData_eq
       avi_shape_def hdrl_shape_def movi_shape_def index_chunk_def index_entries_def
       index_entry_def movi_streams_def
       avi_file_flat length_movi_children length_hdrl_children length_idx1_payload
       algebra_simps)
  done

lemma shaped_finish: "shaped b \<Longrightarrow> shaped (fst (finish b))"
  unfolding shaped_def
  by (metis finish_avi finish_headerLIST finish_moviLIST)

lemma addFrame_keeps:
  assumes "addFrame atob u b = Inr b'"
  shows "avi b' = avi b" "headerLIST b' = headerLIST b" "moviLIST b' = moviLIST b"
    "audioBlob b' = audioBlob b" "audioNumChannels b' = audioNumChannels b"
    "audioSampleRate b' = audioSampleRate b"
    "w (movieDesc b') = w (movieDesc b)" "h (movieDesc b') = h (movieDesc b)"
    "fps (movieDesc b') = fps (movieDesc b)"
  using assms by (auto simp: addFrame_def Let_def split: option.splits if_splits)

lemma reachable_shaped: "reachable b \<Longrightarrow> shaped b"

proof (induction rule: reachable.induct)
  case new
  show ?case
    by (simp add: shaped_def MJPEGBuilder_new_def createAVIStruct_def createHeaderLIST_def
        createMoviLIST_def avi_shape_def hdrl_shape_def movi_shape_def)

next
  case (setup_movie this frameWidth frameHeight rate)
  then show ?case by (simp add: shaped_def setup_movie_def)

next
  case (addFrame this atob u this')
  then show ?case
    by (simp add: shaped_def addFrame_keeps)

next
  case (addAudio this blob numChannels sampleRate)
  then show ?case by (simp add: shaped_def addAudio_def)

next
  case (finish this)
  then show ?case by (simp add: shaped_finish)

qed

lemma finish_output:
  "reachable b \<Longrightarrow> snd (finish b) = Inr \<lparr>blob_bytes = avi_file b, blob_type = ''video/avi''\<rparr>"
  using reachable_shaped [of b] finish_output_shapes [of b] unfolding shaped_def by blast

lemma avi_file_finish [simp]: "avi_file (fst (finish b)) = avi_file b"
  by (simp add: avi_file_def hdrl_children_def movi_children_def idx1_payload_def
      avih_payload_def strh_video_payload_def strf_video_payload_def strh_audio_payload_def
      strf_audio_payload_def cong: option.case_cong)

subsection \<open>Reading the headers\<close>

lemma bytes_at_skip:
  "length p \<le> off \<Longrightarrow> bytes_at off n (p @ xs) = bytes_at (off - length p) n xs"
  by (simp add: bytes_at_def)

lemma bytes_at_here: "length p = n \<Longrightarrow> bytes_at 0 n (p @ xs) = p"
  by (simp add: bytes_at_def)

lemma bytes_at_Cons: "0 < off \<Longrightarrow> bytes_at off n (x # xs) = bytes_at (off - 1) n xs"
  by (cases off) (simp_all add: bytes_at_def)

lemmas header_defs =
  avi_file_def chunk_def list_chunk_def hdrl_children_def avih_payload_def
  strh_video_payload_def strf_video_payload_def strh_audio_payload_def strf_audio_payload_def

lemma main_header_fields:
  "bytes_at 24 4 (avi_file b) = fourcc ''avih''"
  "bytes_at 32 4 (avi_file b) = le32 (frame_duration (fps (movieDesc b)))"
  "bytes_at 36 4 (avi_file b) = le32 (maxJPEGSize (movieDesc b) * fps (movieDesc b))"
  "bytes_at 44 4 (avi_file b) = le32 AVIF_HASINDEX"
  "bytes_at 48 4 (avi_file b) = le32 (int (length (frameList b)))"
  "bytes_at 56 4 (avi_file b) = le32 2"
  "bytes_at 64 4 (avi_file b) = le32 (w (movieDesc b))"
  "bytes_at 68 4 (avi_file b) = le32 (h (movieDesc b))"
  by (simp_all add: header_defs bytes_at_skip bytes_at_here)

lemma video_header_fields:
  "bytes_at 100 4 (avi_file b) = fourcc ''strh''"
  "bytes_at 108 4 (avi_file b) = fourcc ''vids''"
  "bytes_at 140 4 (avi_file b) = le32 (int (length (frameList b)))"
  by (simp_all add: header_defs bytes_at_skip bytes_at_here)

lemma audio_header_fields:
  assumes "audioBlob b = Some blob"
  shows
  "bytes_at 224 4 (avi_file b) = fourcc ''strh''"
  "bytes_at 232 4 (avi_file b) = fourcc ''auds''"
  "bytes_at 252 4 (avi_file b) = le32 1"
  "bytes_at 256 4 (avi_file b) = le32 (audioNumChannels b * audioSampleRate b)"
  "bytes_at 264 4 (avi_file b) =
     le32 (tquot (audioNumChannels b * audioSampleRate b * int (length (frameList b)))
                 (fps (movieDesc b)))"
  "bytes_at 276 4 (avi_file b) = le32 2"
  "bytes_at 288 4 (avi_file b) = fourcc ''strf''"
  "bytes_at 296 2 (avi_file b) = le16 1"
  "bytes_at 298 2 (avi_file b) = le16 (audioNumChannels b)"
  "bytes_at 300 4 (avi_file b) = le32 (audioSampleRate b)"
  "bytes_at 304 4 (avi_file b) = le32 (audioSampleRate b * audioNumChannels b)"
  "bytes_at 308 2 (avi_file b) = le16 2"
  "bytes_at 310 2 (avi_file b) = le16 16"
  using assms by (simp_all add: header_defs bytes_at_skip bytes_at_here bytes_at_Cons)

subsection \<open>Examples\<close>

lemma atob1: "atob_base64 ''/9j/2Q=='' = Some [0xff, 0xd8, 0xff, 0xd9]"
  by (simp add: atob_base64_def strip_padding_def base64_alphabet_def)

lemma atob2: "atob_base64 ''/9j/4Nk='' = Some [0xff, 0xd8, 0xff, 0xe0, 0xd9]"
  by (simp add: atob_base64_def strip_padding_def base64_alphabet_def)

lemma example_video_eq:
  "example_video =
     \<lparr>movieDesc = \<lparr>w = 320, h = 240, fps = 10, videoStreamSize = 10, maxJPEGSize = 6\<rparr>,
      avi = createAVIStruct, headerLIST = createHeaderLIST, moviLIST = createMoviLIST,
      frameList =
        [\<lparr>blob_bytes = [0xff, 0xd8, 0xff, 0xd9], blob_type = ''image/jpeg''\<rparr>,
         \<lparr>blob_bytes = [0xff, 0xd8, 0xff, 0xe0, 0xd9, 0], blob_type = ''image/jpeg''\<rparr>],
      audioBlob = None, audioNumChannels = 0, audioSampleRate = 0\<rparr>"
  by (simp add: example_video_def addFrame_def atob1 atob2 setup_movie_def MJPEGBuilder_new_def
      Let_def charCodeAt_def blob_size_def upt_rec [of _ "numeral _"])

lemma example_frames:
  "addFrame atob_base64 ''data:image/jpeg;base64,/9j/2Q=='' (setup_movie 320 240 10 MJPEGBuilder_new)
     = Inr (projr (addFrame atob_base64 ''data:image/jpeg;base64,/9j/2Q==''
          (setup_movie 320 240 10 MJPEGBuilder_new)))"
  "addFrame atob_base64 ''data:image/jpeg;base64,/9j/4Nk=''
       (projr (addFrame atob_base64 ''data:image/jpeg;base64,/9j/2Q==''
          (setup_movie 320 240 10 MJPEGBuilder_new)))
     = Inr example_video"
  by (simp_all add: example_video_def addFrame_def atob1 atob2 Let_def)

lemma reachable_example_video: "reachable example_video"
  by (rule reachable.addFrame [OF reachable.addFrame [OF reachable.setup_movie [OF reachable.new]
      example_frames(1)] example_frames(2)])

lemma reachable_example_av: "reachable example_av"
  unfolding example_av_def by (rule reachable.addAudio [OF reachable_example_video])

lemma example_av_eq:
  "example_av =
     \<lparr>movieDesc = \<lparr>w = 320, h = 240, fps = 10, videoStreamSize = 10, maxJPEGSize = 6\<rparr>,
      avi = createAVIStruct, headerLIST = createHeaderLIST, moviLIST = createMoviLIST,
      frameList =
        [\<lparr>blob_bytes = [0xff, 0xd8, 0xff, 0xd9], blob_type = ''image/jpeg''\<rparr>,
         \<lparr>blob_bytes = [0xff, 0xd8, 0xff, 0xe0, 0xd9, 0], blob_type = ''image/jpeg''\<rparr>],
      audioBlob = Some example_pcm, audioNumChannels = 1, audioSampleRate = 8000\<rparr>"
  by (simp add: example_av_def example_video_eq addAudio_def)

lemma example_video_fields:
  "movieDesc example_video =
     \<lparr>w = 320, h = 240, fps = 10, videoStreamSize = 10, maxJPEGSize = 6\<rparr>"
  "length (frameList example_video) = 2"
  "audioBlob example_video = None"
  by (simp_all add: example_video_eq)

lemma example_av_fields:
  "movieDesc example_av =
     \<lparr>w = 320, h = 240, fps = 10, videoStreamSize = 10, maxJPEGSize = 6\<rparr>"
  "length (frameList example_av) = 2"
  "audioBlob example_av = Some example_pcm"
  "audioNumChannels example_av = 1"
  "audioSampleRate example_av = 8000"
  by (simp_all add: example_av_eq)

lemma reachable_example_stereo: "reachable example_stereo"
  unfolding example_stereo_def by (rule reachable.addAudio [OF reachable_example_video])

lemma example_stereo_fields:
  "audioBlob example_stereo = Some example_pcm"
  "audioNumChannels example_stereo = 2"
  "audioSampleRate example_stereo = 44100"
  by (simp_all add: example_stereo_def addAudio_def)

lemma new_fields:
  "fps (movieDesc MJPEGBuilder_new) = 0" "frameList MJPEGBuilder_new = []"
  by (simp_all add: MJPEGBuilder_new_def)

subsection \<open>The frames of a reachable builder\<close>

lemma fold_max_snoc: "fold max (xs @ [x]) (a::int) = max (fold max xs a) x"
  by (simp add: max.commute)

lemma reachable_maxJPEGSize:
  "reachable b \<Longrightarrow> maxJPEGSize (movieDesc b) = fold max (map blob_size (frameList b)) 0"

proof (induction rule: reachable.induct)
  case new
  show ?case by (simp add: MJPEGBuilder_new_def)

next
  case (setup_movie this frameWidth frameHeight rate)
  then show ?case by (simp add: setup_movie_def)

next
  case (addFrame this atob u this')
  then show ?case
    by (auto simp: addFrame_def Let_def max_def split: option.splits if_splits)

next
  case (addAudio this blob numChannels sampleRate)
  then show ?case by (simp add: addAudio_def)

next
  case (finish this)
  then show ?case by simp

qed

lemma map_charCodeAt: "map (charCodeAt frame) [0..<length frame] = frame"
  by (rule nth_equalityI) (simp_all add: charCodeAt_def)

lemma addFrame_Some:
  assumes "atob (drop 23 u) = Some frame"
  shows "\<exists>b'. addFrame atob u b = Inr b'
     \<and> frameList b' =
         frameList b @ [\<lparr>blob_bytes = pad_even frame, blob_type = ''image/jpeg''\<rparr>]
     \<and> videoStreamSize (movieDesc b') =
         videoStreamSize (movieDesc b) + int (length (pad_even frame))
     \<and> maxJPEGSize (movieDesc b') =
         max (maxJPEGSize (movieDesc b)) (int (length (pad_even frame)))"
proof (cases "odd (length frame)")
  case True
  then have "length frame mod 2 \<noteq> 0" by presburger
  with True show ?thesis
    using assms
    by (simp add: addFrame_def Let_def map_charCodeAt pad_even_def blob_size_def max_def)
       (simp add: charCodeAt_def)
next
  case False
  then have "\<not> length frame mod 2 \<noteq> 0" by presburger
  with False show ?thesis
    using assms
    by (simp add: addFrame_def Let_def map_charCodeAt pad_even_def blob_size_def max_def)
qed

lemma even_pad_even: "even (length (pad_even frame))"
  by (simp add: pad_even_def)

lemma getInt_video_chunk: "getInt (video_chunk blob) ''dwSize'' = blob_size blob"
  by (simp add: video_chunk_def)

lemma reachable_frames:
  "reachable b \<Longrightarrow>
     (\<forall>f \<in> set (frameList b). even (length (blob_bytes f)))
     \<and> videoStreamSize (movieDesc b) = (\<Sum>f\<leftarrow>frameList b. blob_size f)"
proof (induction rule: reachable.induct)
  case new
  show ?case by (simp add: MJPEGBuilder_new_def)
next
  case (setup_movie this frameWidth frameHeight rate)
  then show ?case by (simp add: setup_movie_def)
next
  case (addFrame this atob u this')
  from addFrame.hyps(2) obtain frame where f: "atob (drop 23 u) = Some frame"
    by (auto simp: addFrame_def split: option.splits)
  from addFrame_Some [of atob u frame "this", OF f] addFrame.hyps(2) addFrame.IH show ?case
    by (auto simp: even_pad_even blob_size_def)
next
  case (addAudio this blob numChannels sampleRate)
  then show ?case by (simp add: addAudio_def)
next
  case (finish this)
  then show ?case by simp
qed

subsection \<open>Sizes and the index\<close>

lemma frames_extent_sum: "frames_extent frames = (\<Sum>f\<leftarrow>frames. 8 + blob_size f)"
  by (induction frames) simp_all

lemma getInt_shapes [simp]:
  "getInt (avi_shape (IntV k) y) ''dwSize'' = k"
  "getInt (hdrl_shape (IntV k) y) ''dwSize'' = k"
  "getInt (movi_shape (IntV k) y) ''dwSize'' = k"
  "field (avi_shape x y) ''aData'' = y"
  "field (movi_shape x y) ''aStreams'' = y"
  by (simp_all add: avi_shape_def hdrl_shape_def movi_shape_def)

lemma index_chunk_fields [simp]:
  "getInt (index_chunk b) ''dwSize'' = int (length (index_entries b)) * 16"
  "field (index_chunk b) ''aData'' = Arr (index_entries b)"
  by (simp_all add: index_chunk_def)

lemma length_index_entries:
  "length (index_entries b) =
     length (frameList b) + (case audioBlob b of None \<Rightarrow> 0 | Some blob \<Rightarrow> 1)"
  by (simp add: index_entries_def split: option.splits)

lemma length_avi_file:
  "int (length (avi_file b)) =
     8 + (4 + (8 + (4 + int (length (hdrl_children b))))
            + (8 + (4 + int (length (movi_children b))))
            + (8 + int (length (idx1_payload b))))"
  by (simp add: avi_file_def list_chunk_def)

lemma example_av_lengths:
  "int (length (movi_children example_av)) = 40"
  "length (hdrl_children example_av) = 290"
  "length (idx1_payload example_av) = 48"
  by (simp_all add: length_movi_children length_hdrl_children length_idx1_payload
      example_av_eq blob_size_def example_pcm_def)

lemma index_entry_fields [simp]:
  "getInt (index_entry tag off len) ''dwOffset'' = off"
  "getInt (index_entry tag off len) ''dwLength'' = len"
  "field (index_entry tag off len) ''chId'' = Str tag"
  "field (index_entry tag off len) ''dwFlags'' = IntV AVIIF_KEYFRAME"
  by (simp_all add: index_entry_def)

lemma chunk_fields [simp]:
  "getInt (video_chunk blob) ''dwSize'' = blob_size blob"
  "getInt (audio_chunk blob) ''dwSize'' = blob_size blob"
  "field (video_chunk blob) ''chType'' = Str ''00dc''"
  "field (audio_chunk blob) ''chType'' = Str ''01wb''"
  by (simp_all add: video_chunk_def audio_chunk_def)








lemma chunk_offset_0 [simp]: "chunk_offset sizes 0 = 4"
  by (simp add: chunk_offset_def)






subsection \<open>The writer against its specification\<close>













lemma agrees_Inr [simp]: "agrees (Inr x) ok bb' \<longleftrightarrow> ok \<and> x = bb'"
  by (simp add: agrees_def)

lemma agrees_Inl [simp]: "agrees (Inl e) ok bb' \<longleftrightarrow> \<not> ok \<and> schema_error e"
  by (simp add: agrees_def)








lemma written_int_IntV [simp]: "written_int (IntV k) = k"
  by (simp add: written_int_def jsint_def)

lemma spec_write_fold_Cons:
  "fold (\<lambda>x bb. spec_write bb x) (x # xs) bb = fold (\<lambda>x bb. spec_write bb x) xs (spec_write bb x)"
  by simp

section \<open>The claims\<close>

text \<open>
  Every statement below is about the builders a program can hold (\<open>reachable\<close>). The file
  \<^verbatim>\<open>finish\<close> returns is read at fixed offsets with \<open>bytes_at\<close>: the main header
  \<^verbatim>\<open>avih\<close> starts at byte 24, the video stream header \<^verbatim>\<open>strh\<close> at byte 100, and, when
  there is an audio track, the audio stream header at byte 224 and the audio format record
  \<^verbatim>\<open>strf\<close> at byte 288. A field is compared with \<open>le32\<close> or \<open>le16\<close> of its value, the
  little-endian bytes of the value modulo \<open>2^32\<close> or \<open>2^16\<close>.
\<close>

text \<open>
  C1: the declared size of every list and of the index chunk is the byte length of what
  follows it. The file is the RIFF chunk built by \<open>chunk\<close> and \<open>list_chunk\<close>, which write
  the length of the payload as the size; and the numbers \<^verbatim>\<open>dwSize\<close> of the descriptors that
  \<^verbatim>\<open>finish\<close> serialises are those lengths: of \<^verbatim>\<open>movi\<close>, 4 plus 8 + payload for every data
  chunk; of \<^verbatim>\<open>hdrl\<close>, 4 plus the main header and each stream list; of \<^verbatim>\<open>idx1\<close>, 16 times
  the number of entries; of the root, 4 plus the three children, that is the length of the
  file less 8.
\<close>

theorem declared_sizes:
  assumes "reachable b"
  shows "\<exists>out hdrl movi idx.
       snd (finish b) = Inr out
     \<and> blob_bytes out =
         chunk ''RIFF''
           (fourcc ''AVI ''
            @ list_chunk ''LIST'' ''hdrl'' (hdrl_children b)
            @ list_chunk ''LIST'' ''movi'' (movi_children b)
            @ chunk ''idx1'' (idx1_payload b))
     \<and> field (avi (fst (finish b))) ''aData'' = Arr [hdrl, movi, idx]
     \<and> getInt movi ''dwSize'' = 4 + int (length (movi_children b))
     \<and> getInt movi ''dwSize'' =
         4 + (\<Sum>frame\<leftarrow>frameList b. 8 + blob_size frame)
           + (case audioBlob b of None \<Rightarrow> 0 | Some blob \<Rightarrow> 8 + blob_size blob)
     \<and> getInt hdrl ''dwSize'' = 4 + int (length (hdrl_children b))
     \<and> getInt hdrl ''dwSize'' =
         4 + int (length (chunk ''avih'' (avih_payload b)))
           + int (length (list_chunk ''LIST'' ''strl''
                   (chunk ''strh'' (strh_video_payload b)
                    @ chunk ''strf'' (strf_video_payload b))))
           + (case audioBlob b of
                None \<Rightarrow> 0
              | Some blob \<Rightarrow>
                  int (length (list_chunk ''LIST'' ''strl''
                    (chunk ''strh'' (strh_audio_payload b)
                     @ chunk ''strf'' (strf_audio_payload b)))))
     \<and> getInt idx ''dwSize'' = int (length (idx1_payload b))
     \<and> getInt idx ''dwSize'' =
         16 * (int (length (frameList b))
               + (case audioBlob b of None \<Rightarrow> 0 | Some blob \<Rightarrow> 1))
     \<and> getInt (avi (fst (finish b))) ''dwSize'' =
         4 + (8 + getInt hdrl ''dwSize'') + (8 + getInt movi ''dwSize'')
           + (8 + getInt idx ''dwSize'')
     \<and> getInt (avi (fst (finish b))) ''dwSize'' = int (length (blob_bytes out)) - 8"
proof -
  from reachable_shaped [OF assms] obtain x1 y1 x2 y2 x3 y3 where
    sh: "avi b = avi_shape x1 y1" "headerLIST b = hdrl_shape x2 y2"
        "moviLIST b = movi_shape x3 y3"
    unfolding shaped_def by blast
  note t = finish_avi [OF sh] finish_headerLIST [OF sh(2)] finish_moviLIST [OF sh(3)]
  show ?thesis
    apply (rule exI [of _ "\<lparr>blob_bytes = avi_file b, blob_type = ''video/avi''\<rparr>"])
    apply (rule exI [of _ "headerLIST (fst (finish b))"])
    apply (rule exI [of _ "moviLIST (fst (finish b))"])
    apply (rule exI [of _ "index_chunk b"])
    apply (simp add: finish_output [OF assms] t(1))
    apply (simp add: t(2,3) avi_file_def [symmetric] length_avi_file length_movi_children
        length_hdrl_children length_idx1_payload length_index_entries frames_extent_sum
        split: option.splits)
    done
qed

theorem declared_sizes_witness:
  "reachable example_av
   \<and> (\<exists>out hdrl movi idx.
         snd (finish example_av) = Inr out
       \<and> field (avi (fst (finish example_av))) ''aData'' = Arr [hdrl, movi, idx]
       \<and> getInt movi ''dwSize'' = 44
       \<and> getInt hdrl ''dwSize'' = 294
       \<and> getInt idx ''dwSize'' = 48
       \<and> getInt (avi (fst (finish example_av))) ''dwSize'' = 414
       \<and> int (length (blob_bytes out)) = 422)"
proof -
  from declared_sizes [OF reachable_example_av] obtain out hdrl movi idx where
    "snd (finish example_av) = Inr out"
    "field (avi (fst (finish example_av))) ''aData'' = Arr [hdrl, movi, idx]"
    "getInt movi ''dwSize'' = 4 + int (length (movi_children example_av))"
    "getInt hdrl ''dwSize'' = 4 + int (length (hdrl_children example_av))"
    "getInt idx ''dwSize'' = int (length (idx1_payload example_av))"
    "getInt (avi (fst (finish example_av))) ''dwSize'' =
       4 + (8 + getInt hdrl ''dwSize'') + (8 + getInt movi ''dwSize'')
         + (8 + getInt idx ''dwSize'')"
    "getInt (avi (fst (finish example_av))) ''dwSize'' = int (length (blob_bytes out)) - 8"
    by blast
  then show ?thesis
    using reachable_example_av by (auto simp: example_av_lengths)
qed



text \<open>
  C3 (as the specification states it): \<^verbatim>\<open>finish\<close> fails with a configuration error
  whenever \<^verbatim>\<open>fps\<close> is zero or no frame was added, and never returns a blob then. The source
  has no such check: with \<^verbatim>\<open>fps = 0\<close> and no frame it returns a blob of 232 bytes.
\<close>

theorem finish_fails_counterexample:
  "fps (movieDesc (setup_movie 320 240 0 MJPEGBuilder_new)) = 0
   \<and> frameList (setup_movie 320 240 0 MJPEGBuilder_new) = []
   \<and> \<not> isl (snd (finish (setup_movie 320 240 0 MJPEGBuilder_new)))
   \<and> length (blob_bytes (projr (snd (finish (setup_movie 320 240 0 MJPEGBuilder_new))))) = 232"
  using finish_output [OF reachable.setup_movie [OF reachable.new], of 320 240 0]
  by (simp add: setup_movie_def MJPEGBuilder_new_def avi_file_def movi_children_def
      idx1_payload_def length_hdrl_children)

text \<open>
  C3 (amended): \<^verbatim>\<open>finish\<close> validates nothing and raises no error: for every builder, also
  with \<^verbatim>\<open>fps = 0\<close> or without frames, it returns a blob, of type \<^verbatim>\<open>video/avi\<close>.
\<close>

theorem finish_returns_blob:
  assumes "reachable b"
  shows "\<exists>out. snd (finish b) = Inr out \<and> blob_type out = ''video/avi''"
  using finish_output [OF assms] by simp

theorem finish_returns_blob_witness:
  "reachable MJPEGBuilder_new \<and> fps (movieDesc MJPEGBuilder_new) = 0
   \<and> frameList MJPEGBuilder_new = []
   \<and> (\<exists>out. snd (finish MJPEGBuilder_new) = Inr out \<and> blob_type out = ''video/avi'')"
  using finish_returns_blob [OF reachable.new]
  by (simp add: reachable.new new_fields)

text \<open>
  C4: with \<^verbatim>\<open>fps > 0\<close>, the main header of the file holds
  \<^verbatim>\<open>dwMicroSecPerFrame\<close> = \<open>\<lfloor>1000000 / fps\<rfloor>\<close> (offset 32),
  \<^verbatim>\<open>dwMaxBytesPerSec\<close> = \<^verbatim>\<open>maxJPEGSize * fps\<close> (offset 36), where \<^verbatim>\<open>maxJPEGSize\<close> is the
  largest size among the frames added, the configured width and height (offsets 64 and 68),
  the flag \<^verbatim>\<open>AVIF_HASINDEX\<close> (offset 44) and the stream count 2 (offset 56), with or without
  an audio track.
\<close>

theorem main_header:
  assumes "reachable b" and "0 < fps (movieDesc b)"
  shows "\<exists>out. snd (finish b) = Inr out
     \<and> bytes_at 24 4 (blob_bytes out) = fourcc ''avih''
     \<and> bytes_at 32 4 (blob_bytes out) = le32 (1000000 div fps (movieDesc b))
     \<and> bytes_at 36 4 (blob_bytes out) = le32 (maxJPEGSize (movieDesc b) * fps (movieDesc b))
     \<and> maxJPEGSize (movieDesc b) = fold max (map blob_size (frameList b)) 0
     \<and> bytes_at 64 4 (blob_bytes out) = le32 (w (movieDesc b))
     \<and> bytes_at 68 4 (blob_bytes out) = le32 (h (movieDesc b))
     \<and> bytes_at 44 4 (blob_bytes out) = le32 AVIF_HASINDEX
     \<and> bytes_at 56 4 (blob_bytes out) = le32 2"
  using assms reachable_maxJPEGSize [OF assms(1)]
  by (simp add: finish_output main_header_fields frame_duration_def RateBase_def)

theorem main_header_witness:
  "reachable example_video \<and> 0 < fps (movieDesc example_video)
   \<and> (\<exists>out. snd (finish example_video) = Inr out
        \<and> bytes_at 32 4 (blob_bytes out) = le32 100000
        \<and> bytes_at 36 4 (blob_bytes out) = le32 60
        \<and> bytes_at 64 4 (blob_bytes out) = le32 320
        \<and> bytes_at 68 4 (blob_bytes out) = le32 240
        \<and> bytes_at 44 4 (blob_bytes out) = le32 16
        \<and> bytes_at 56 4 (blob_bytes out) = le32 2)"
  using main_header [OF reachable_example_video]
  by (auto simp: reachable_example_video example_video_fields AVIF_HASINDEX_def)

text \<open>
  C5: with \<open>N\<close> frames added, \<^verbatim>\<open>dwTotalFrames\<close> of the main header (offset 48) and
  \<^verbatim>\<open>dwLength\<close> of the video stream header (offset 140) both hold \<open>N\<close>, whatever
  \<^verbatim>\<open>fps\<close> is.
\<close>

theorem frame_counts:
  assumes "reachable b"
  shows "\<exists>out. snd (finish b) = Inr out
     \<and> bytes_at 24 4 (blob_bytes out) = fourcc ''avih''
     \<and> bytes_at 48 4 (blob_bytes out) = le32 (int (length (frameList b)))
     \<and> bytes_at 100 4 (blob_bytes out) = fourcc ''strh''
     \<and> bytes_at 108 4 (blob_bytes out) = fourcc ''vids''
     \<and> bytes_at 140 4 (blob_bytes out) = le32 (int (length (frameList b)))"
  using assms by (simp add: finish_output main_header_fields video_header_fields)

theorem frame_counts_witness:
  "reachable example_av
   \<and> (\<exists>out. snd (finish example_av) = Inr out
        \<and> bytes_at 48 4 (blob_bytes out) = le32 2
        \<and> bytes_at 140 4 (blob_bytes out) = le32 2)"
  using frame_counts [OF reachable_example_av]
  by (auto simp: reachable_example_av example_av_fields)

text \<open>
  C6: with an audio track, \<^verbatim>\<open>fps > 0\<close> and a channel count and sample rate that are not
  negative, the audio stream header holds \<^verbatim>\<open>dwScale\<close> = 1 (offset 252), \<^verbatim>\<open>dwRate\<close> =
  channels \<open>\<times>\<close> sample rate (offset 256), \<^verbatim>\<open>dwSampleSize\<close> = 2 (offset 276) and
  \<^verbatim>\<open>dwLength\<close> = channels \<open>\<times>\<close> sample rate \<open>\<times>\<close> frame count \<open>div\<close> fps (offset 264): the
  source divides doubles, and the writer of a \<^verbatim>\<open>DWORD\<close> truncates the quotient.
\<close>

theorem audio_stream_header:
  assumes "reachable b" and "audioBlob b = Some blob" and "0 < fps (movieDesc b)"
    and "0 \<le> audioNumChannels b" and "0 \<le> audioSampleRate b"
  shows "\<exists>out. snd (finish b) = Inr out
     \<and> bytes_at 224 4 (blob_bytes out) = fourcc ''strh''
     \<and> bytes_at 232 4 (blob_bytes out) = fourcc ''auds''
     \<and> bytes_at 252 4 (blob_bytes out) = le32 1
     \<and> bytes_at 256 4 (blob_bytes out) = le32 (audioNumChannels b * audioSampleRate b)
     \<and> bytes_at 276 4 (blob_bytes out) = le32 2
     \<and> bytes_at 264 4 (blob_bytes out) =
           le32 (audioNumChannels b * audioSampleRate b * int (length (frameList b))
                   div fps (movieDesc b))"
proof -
  have "0 \<le> audioNumChannels b * audioSampleRate b * int (length (frameList b))"
    using assms(4,5) by simp
  then show ?thesis
    using assms(1,2,3)
    by (simp add: finish_output audio_header_fields [OF assms(2)] tquot_nonneg)
qed

theorem audio_stream_header_witness:
  "reachable example_av \<and> audioBlob example_av = Some example_pcm
   \<and> 0 < fps (movieDesc example_av)
   \<and> 0 \<le> audioNumChannels example_av \<and> 0 \<le> audioSampleRate example_av
   \<and> (\<exists>out. snd (finish example_av) = Inr out
        \<and> bytes_at 252 4 (blob_bytes out) = le32 1
        \<and> bytes_at 256 4 (blob_bytes out) = le32 8000
        \<and> bytes_at 276 4 (blob_bytes out) = le32 2
        \<and> bytes_at 264 4 (blob_bytes out) = le32 1600)"
  using audio_stream_header [OF reachable_example_av, of example_pcm]
  by (auto simp: reachable_example_av example_av_fields)

text \<open>
  C7: with an audio track, the audio format record holds the format code 1 (PCM, offset
  296), the channel count (offset 298), the sample rate (offset 300),
  \<^verbatim>\<open>dwnAvgBytesPerSec\<close> = sample rate \<open>\<times>\<close> channels, without the factor of the bytes per
  sample (offset 304), the block alignment 2 (offset 308) and 16 bits per sample (offset
  310).
\<close>

theorem audio_format_record:
  assumes "reachable b" and "audioBlob b = Some blob"
  shows "\<exists>out. snd (finish b) = Inr out
     \<and> bytes_at 288 4 (blob_bytes out) = fourcc ''strf''
     \<and> bytes_at 296 2 (blob_bytes out) = le16 1
     \<and> bytes_at 298 2 (blob_bytes out) = le16 (audioNumChannels b)
     \<and> bytes_at 300 4 (blob_bytes out) = le32 (audioSampleRate b)
     \<and> bytes_at 304 4 (blob_bytes out) = le32 (audioSampleRate b * audioNumChannels b)
     \<and> bytes_at 308 2 (blob_bytes out) = le16 2
     \<and> bytes_at 310 2 (blob_bytes out) = le16 16"
  using assms by (simp add: finish_output audio_header_fields [OF assms(2)])

theorem audio_format_record_witness:
  "reachable example_stereo \<and> audioBlob example_stereo = Some example_pcm
   \<and> (\<exists>out. snd (finish example_stereo) = Inr out
        \<and> bytes_at 296 2 (blob_bytes out) = le16 1
        \<and> bytes_at 298 2 (blob_bytes out) = le16 2
        \<and> bytes_at 300 4 (blob_bytes out) = le32 44100
        \<and> bytes_at 304 4 (blob_bytes out) = le32 88200
        \<and> bytes_at 308 2 (blob_bytes out) = le16 2
        \<and> bytes_at 310 2 (blob_bytes out) = le16 16)"
  using audio_format_record [OF reachable_example_stereo, of example_pcm]
  by (auto simp: reachable_example_stereo example_stereo_fields)

text \<open>
  C8: a second call of \<^verbatim>\<open>finish\<close>, on the builder as the first call has left it, returns
  the same blob; the first call changes neither the frames, nor the audio track, nor the
  configuration.
\<close>

theorem finish_twice:
  assumes "reachable b"
  shows "snd (finish (fst (finish b))) = snd (finish b)
     \<and> (\<exists>out. snd (finish b) = Inr out)
     \<and> frameList (fst (finish b)) = frameList b
     \<and> audioBlob (fst (finish b)) = audioBlob b
     \<and> audioNumChannels (fst (finish b)) = audioNumChannels b
     \<and> audioSampleRate (fst (finish b)) = audioSampleRate b
     \<and> movieDesc (fst (finish b)) = movieDesc b"
  using finish_output [OF assms] finish_output [OF reachable.finish [OF assms]] by simp

theorem finish_twice_witness:
  "reachable example_av
   \<and> snd (finish (fst (finish example_av))) = snd (finish example_av)
   \<and> (\<exists>out. snd (finish example_av) = Inr out)"
  using finish_twice [OF reachable_example_av] by (simp add: reachable_example_av)




text \<open>
  C10: \<^verbatim>\<open>addFrame\<close> decodes \<open>u\<close> without its first 23 characters (and raises what the
  decoder raises); the frame it stores is the decoded bytes, with one zero byte more when
  their number is odd, so of even length; that length is added to
  \<^verbatim>\<open>videoStreamSize\<close>, compared with \<^verbatim>\<open>maxJPEGSize\<close>, declared by the data chunk made for
  the frame and written with it. Hence every frame of a builder has an even length, and
  \<^verbatim>\<open>videoStreamSize\<close> is the sum of the stored lengths.
\<close>

theorem addFrame_padding:
  "(case atob (drop 23 u) of
      None \<Rightarrow> addFrame atob u b = Inl InvalidCharacterError
    | Some frame \<Rightarrow>
        (\<exists>b'. addFrame atob u b = Inr b'
           \<and> frameList b' =
               frameList b @ [\<lparr>blob_bytes = pad_even frame, blob_type = ''image/jpeg''\<rparr>]
           \<and> videoStreamSize (movieDesc b') =
               videoStreamSize (movieDesc b) + int (length (pad_even frame))
           \<and> maxJPEGSize (movieDesc b') =
               max (maxJPEGSize (movieDesc b)) (int (length (pad_even frame))))
        \<and> pad_even frame = (if odd (length frame) then frame @ [0] else frame)
        \<and> even (length (pad_even frame))
        \<and> (\<forall>list bb. \<exists>stream.
              addVideoStreamData list \<lparr>blob_bytes = pad_even frame, blob_type = ''image/jpeg''\<rparr>
                = (list @ [stream], int (length (pad_even frame)) + 8)
              \<and> getInt stream ''dwSize'' = int (length (pad_even frame))
              \<and> appendStruct bb stream =
                  Inr (bb @ [fourcc ''00dc'', le32 (int (length (pad_even frame))),
                             pad_even frame])))
   \<and> (reachable b \<longrightarrow>
        (\<forall>f \<in> set (frameList b). even (length (blob_bytes f)))
        \<and> videoStreamSize (movieDesc b) = (\<Sum>f\<leftarrow>frameList b. blob_size f))"
proof (intro conjI)
  show "case atob (drop 23 u) of
      None \<Rightarrow> addFrame atob u b = Inl InvalidCharacterError
    | Some frame \<Rightarrow>
        (\<exists>b'. addFrame atob u b = Inr b'
           \<and> frameList b' =
               frameList b @ [\<lparr>blob_bytes = pad_even frame, blob_type = ''image/jpeg''\<rparr>]
           \<and> videoStreamSize (movieDesc b') =
               videoStreamSize (movieDesc b) + int (length (pad_even frame))
           \<and> maxJPEGSize (movieDesc b') =
               max (maxJPEGSize (movieDesc b)) (int (length (pad_even frame))))
        \<and> pad_even frame = (if odd (length frame) then frame @ [0] else frame)
        \<and> even (length (pad_even frame))
        \<and> (\<forall>list bb. \<exists>stream.
              addVideoStreamData list \<lparr>blob_bytes = pad_even frame, blob_type = ''image/jpeg''\<rparr>
                = (list @ [stream], int (length (pad_even frame)) + 8)
              \<and> getInt stream ''dwSize'' = int (length (pad_even frame))
              \<and> appendStruct bb stream =
                  Inr (bb @ [fourcc ''00dc'', le32 (int (length (pad_even frame))),
                             pad_even frame]))"
  proof (cases "atob (drop 23 u)")
    case None
    then show ?thesis by (simp add: addFrame_def)
  next
    case (Some frame)
    have "pad_even frame = (if odd (length frame) then frame @ [0] else frame)"
      by (simp add: pad_even_def)
    then show ?thesis
      using Some
      using addFrame_Some [of atob u frame b, OF Some]
      by (simp add: even_pad_even addVideoStreamData_eq
          getInt_video_chunk appendStruct_video_chunk blob_size_def)
  qed
next
  show "reachable b \<longrightarrow>
        (\<forall>f \<in> set (frameList b). even (length (blob_bytes f)))
        \<and> videoStreamSize (movieDesc b) = (\<Sum>f\<leftarrow>frameList b. blob_size f)"
    using reachable_frames by blast
qed

theorem addFrame_padding_witness:
  "atob_base64 (drop 23 ''data:image/jpeg;base64,/9j/4Nk='') = Some [0xff, 0xd8, 0xff, 0xe0, 0xd9]
   \<and> pad_even [0xff, 0xd8, 0xff, 0xe0, 0xd9] = [0xff, 0xd8, 0xff, 0xe0, 0xd9, 0]
   \<and> (\<exists>b'. addFrame atob_base64 ''data:image/jpeg;base64,/9j/4Nk='' MJPEGBuilder_new = Inr b'
         \<and> frameList b' =
             [\<lparr>blob_bytes = [0xff, 0xd8, 0xff, 0xe0, 0xd9, 0], blob_type = ''image/jpeg''\<rparr>]
         \<and> videoStreamSize (movieDesc b') = 6
         \<and> maxJPEGSize (movieDesc b') = 6)
   \<and> reachable example_video
   \<and> list_all (\<lambda>f. even (length (blob_bytes f))) (frameList example_video)
   \<and> videoStreamSize (movieDesc example_video) = (\<Sum>f\<leftarrow>frameList example_video. blob_size f)"
proof -
  have a: "atob_base64 (drop 23 ''data:image/jpeg;base64,/9j/4Nk='')
             = Some [0xff, 0xd8, 0xff, 0xe0, 0xd9]"
    by (simp add: atob2)
  have p: "pad_even [0xff, 0xd8, 0xff, 0xe0, 0xd9] = [0xff, 0xd8, 0xff, 0xe0, 0xd9, 0]"
    by (simp add: pad_even_def)
  show ?thesis
    using addFrame_padding [of atob_base64 "''data:image/jpeg;base64,/9j/4Nk=''" MJPEGBuilder_new]
      addFrame_padding [of atob_base64 "''''" example_video]
      reachable_example_video
    unfolding a option.case p
    by (simp add: new_fields MJPEGBuilder_new_def list_all_iff)
qed

end
